theory Spec2Isabelle
  imports Main
begin

section \<open>Values exchanged with the remote server\<close>

text \<open>
  The client of \<^verbatim>\<open>lib/webDriver.js\<close> talks JSON over HTTP. A parsed response body is a
  \<open>json\<close> value; an object is the list of its keys with their values (keys of a parsed
  object are distinct, so \<open>map_of\<close> reads a property). Numbers are restricted to integers:
  nothing below depends on a fractional part.
\<close>

datatype json =
    JNull
  | JBool bool
  | JNum int
  | JStr string
  | JArr "json list"
  | JObj "(string \<times> json) list"

text \<open>JavaScript truthiness of a JSON value, as used by \<^verbatim>\<open>if (x)\<close>, \<^verbatim>\<open>x && y\<close>, \<^verbatim>\<open>x || y\<close>.\<close>

fun truthy :: "json \<Rightarrow> bool" where
  "truthy JNull = False"
| "truthy (JBool b) = b"
| "truthy (JNum n) = (n \<noteq> 0)"
| "truthy (JStr s) = (s \<noteq> [])"
| "truthy (JArr _) = True"
| "truthy (JObj _) = True"

text \<open>
  Reading a property \<^verbatim>\<open>x.k\<close> of a non-null value: \<open>None\<close> is JavaScript's
  \<^verbatim>\<open>undefined\<close>. (Only the keys \<^verbatim>\<open>status\<close>, \<^verbatim>\<open>value\<close>, \<^verbatim>\<open>sessionId\<close> and
  \<^verbatim>\<open>ELEMENT\<close> are ever read, which no primitive or array carries.)
\<close>

fun get_prop :: "json \<Rightarrow> string \<Rightarrow> json option" where
  "get_prop (JObj kvs) k = map_of kvs k"
| "get_prop _ k = None"

definition truthy_opt :: "json option \<Rightarrow> bool" where
  "truthy_opt v = (case v of None \<Rightarrow> False | Some j \<Rightarrow> truthy j)"

fun isArray :: "json \<Rightarrow> bool" where
  "isArray (JArr _) = True"
| "isArray _ = False"

text \<open>
  Modelled from the spec: \<^verbatim>\<open>utils.isObject\<close> and \<^verbatim>\<open>utils.isEmptyObject\<close> live in
  \<^verbatim>\<open>lib/utils.js\<close>, which is not among the sources. The spec lists them as the type
  predicates "is a plain object" and "is an empty plain object".
\<close>

fun isObject :: "json \<Rightarrow> bool" where
  "isObject (JObj _) = True"
| "isObject _ = False"

fun isEmptyObject :: "json \<Rightarrow> bool" where
  "isEmptyObject (JObj kvs) = (kvs = [])"
| "isEmptyObject _ = False"

section \<open>Errors\<close>

text \<open>
  \<^verbatim>\<open>lib/errors.js\<close> is not among the sources. An error is an instance of a class and
  carries a message and the context attached to it. Which class a protocol status selects
  (\<^verbatim>\<open>errors.getProtocolErrorContructor\<close>) is a parameter of the functions below.
  \<open>NativeError\<close> is JavaScript's own \<^verbatim>\<open>Error\<close>.
\<close>

datatype error_class =
    NoSuchElementError
  | StatusError nat
  | ProtocolError
  | NativeError

text \<open>
  The collaborators the dispatcher calls and the sources do not hold: JavaScript's
  \<^verbatim>\<open>JSON.parse\<close> (\<open>Inl msg\<close> when it throws) and the table from protocol status to
  error class.
\<close>

record collab =
  JSON_parse :: "string \<Rightarrow> string + json"
  getProtocolErrorContructor :: "json \<Rightarrow> error_class"

record error =
  cls :: error_class
  message :: string
  err_context :: "(string \<times> json) list"

definition new_error :: "error_class \<Rightarrow> string \<Rightarrow> (string \<times> json) list \<Rightarrow> error" where
  "new_error c msg ctx = \<lparr>cls = c, message = msg, err_context = ctx\<rparr>"

text \<open>
  Modelled from the spec: \<^verbatim>\<open>parametrize\<close> of \<^verbatim>\<open>lib/errors.js\<close> (not among the sources).
  The spec: every error instance supports an idempotent \<^verbatim>\<open>parametrize(context)\<close> that
  records key/value context after construction. A key given again replaces its old value.
\<close>

definition parametrize :: "(string \<times> json) list \<Rightarrow> error \<Rightarrow> error" where
  "parametrize kvs e =
     e\<lparr>err_context := kvs @ filter (\<lambda>kv. fst kv \<notin> fst ` set kvs) (err_context e)\<rparr>"

section \<open>What a callback receives\<close>

text \<open>
  Values handed to callbacks go beyond JSON: \<^verbatim>\<open>undefined\<close>, the driver itself
  (\<^verbatim>\<open>self\<close>), the HTTP response object with its headers and parsed body, element handles
  (\<^verbatim>\<open>new WebElement(id, self)\<close>) and arrays built by the client.
\<close>

datatype jsval =
    Undefined
  | Json json
  | DriverSelf
  | RawResponse "(string \<times> string) list" json
  | WebElement jsval
  | ListOf "jsval list"

fun truthy_js :: "jsval \<Rightarrow> bool" where
  "truthy_js Undefined = False"
| "truthy_js (Json j) = truthy j"
| "truthy_js _ = True"

text \<open>
  An asynchronous operation ends by calling its callback with \<^verbatim>\<open>(err, value)\<close>, by
  throwing, or by never calling back.
\<close>

datatype outcome =
    Callback "error option" jsval
  | Throws string
  | NeverCalled

section \<open>The command dispatcher \<^verbatim>\<open>_cmd\<close>\<close>

record cmd_params =
  cpath :: string
  cmethod :: "string option"
  cdata :: "json option"
  resNeeded :: bool

text \<open>What the transport hands to \<^verbatim>\<open>_cmd\<close>'s continuation: an error, or headers and raw body.\<close>

datatype transport =
    Failed error
  | Responded "(string \<times> string) list" string

text \<open>\<^verbatim>\<open>_strip\<close>: keep the characters whose code is not zero.\<close>

definition strip :: "string \<Rightarrow> string" where
  "strip str = filter (\<lambda>c. of_char c \<noteq> (0::nat)) str"

definition response_text :: "string \<Rightarrow> string" where
  "response_text body = (if body \<noteq> [] then strip body else ''{}'')"

text \<open>
  The result-unwrapping expression of \<^verbatim>\<open>_cmd\<close>; \<open>None\<close> is \<^verbatim>\<open>undefined\<close>
  (the envelope has no \<^verbatim>\<open>value\<close>).
\<close>

definition unwrap :: "json option \<Rightarrow> jsval" where
  "unwrap value =
     (case value of
        None \<Rightarrow> DriverSelf
      | Some v \<Rightarrow>
          if v \<noteq> JNull \<and> (isArray v \<or> \<not> isObject v \<or> \<not> isEmptyObject v)
          then Json v else DriverSelf)"

text \<open>
  The continuation \<^verbatim>\<open>_cmd\<close> passes to \<^verbatim>\<open>request\<close>. A body that parses to
  \<^verbatim>\<open>null\<close> passes the status test and then fails at \<^verbatim>\<open>res.data.value\<close>.
\<close>

definition cmd_callback :: "collab \<Rightarrow> cmd_params \<Rightarrow> transport \<Rightarrow> outcome" where
  "cmd_callback w params tr =
     (case tr of
        Failed err \<Rightarrow> Callback (Some err) Undefined
      | Responded hs body \<Rightarrow>
          (case JSON_parse w (response_text body) of
             Inl msg \<Rightarrow>
               Callback (Some (new_error ProtocolError
                 (''Can`t parse json from response of '' @ cpath params @ '': '' @ msg @
                  [CHR 0x0A] @ '' Raw response data: '' @ response_text body) [])) Undefined
           | Inr d \<Rightarrow>
               (case (if truthy d then get_prop d ''status'' else None) of
                  Some st \<Rightarrow>
                    if truthy st then Callback (Some (new_error (getProtocolErrorContructor w st) [] [])) Undefined
                    else Callback None
                      (if resNeeded params then RawResponse hs d else unwrap (get_prop d ''value''))
                | None \<Rightarrow>
                    if d = JNull then Throws ''TypeError''
                    else Callback None
                      (if resNeeded params then RawResponse hs d else unwrap (get_prop d ''value'')))))"

section \<open>The driver object\<close>

text \<open>
  JavaScript's conversion of a value to a string, as string concatenation applies it
  (\<^verbatim>\<open>'/' + self.sessionId\<close>). Numbers are the integers of \<open>json\<close>: the decimal
  digits are JavaScript's for an integer below \<open>10\<^sup>2\<^sup>1\<close> in absolute value, beyond which
  JavaScript prints an exponent.
\<close>

function dec_nat :: "nat \<Rightarrow> string" where
  "dec_nat n =
     (if n < 10 then [''0123456789'' ! n]
      else dec_nat (n div 10) @ [''0123456789'' ! (n mod 10)])"
  by pat_completeness auto
termination
  by (relation "measure id") auto

definition join_comma :: "string list \<Rightarrow> string" where
  "join_comma xs = (case xs of [] \<Rightarrow> [] | y # ys \<Rightarrow> y @ concat (map (\<lambda>s. CHR '','' # s) ys))"

fun js_to_string :: "json \<Rightarrow> string" where
  "js_to_string JNull = ''null''"
| "js_to_string (JBool b) = (if b then ''true'' else ''false'')"
| "js_to_string (JNum n) = (if n < 0 then CHR ''-'' # dec_nat (nat (- n)) else dec_nat (nat n))"
| "js_to_string (JStr s) = s"
| "js_to_string (JArr xs) = join_comma (map (\<lambda>x. if x = JNull then [] else js_to_string x) xs)"
| "js_to_string (JObj kvs) = ''[object Object]''"

record driver =
  host :: string
  port :: nat
  default_method :: string
  sessionBasePath :: string
  desiredCapabilities :: "(string \<times> json) list"
  defaults_using :: string
  timeouts :: "(string \<times> int) list"
  protocolTimeoutsHash :: "string list"
  sessionId :: "json option"

text \<open>The options of the constructor; \<open>None\<close> is an option left out.\<close>

record driver_options =
  opt_host :: "string option"
  opt_port :: "nat option"
  opt_method :: "string option"
  opt_desiredCapabilities :: "(string \<times> json) list"
  opt_defaults_using :: "string option"
  opt_timeouts :: "(string \<times> int) list"

text \<open>
  Modelled from the spec: \<^verbatim>\<open>utils.extend\<close> (\<^verbatim>\<open>lib/utils.js\<close>, not among the sources), the
  deep-merge of plain option objects. On the flat tables it is applied to here, a given key
  replaces the default and a new key is added after the defaults.
\<close>

definition extend_obj :: "(string \<times> 'a) list \<Rightarrow> (string \<times> 'a) list \<Rightarrow> (string \<times> 'a) list" where
  "extend_obj base given =
     map (\<lambda>kv. (fst kv, case map_of given (fst kv) of Some v \<Rightarrow> v | None \<Rightarrow> snd kv)) base @
     filter (\<lambda>kv. fst kv \<notin> fst ` set base) given"

definition or_default :: "string option \<Rightarrow> string \<Rightarrow> string" where
  "or_default v dflt = (case v of None \<Rightarrow> dflt | Some s \<Rightarrow> if s \<noteq> [] then s else dflt)"

definition WebDriver :: "driver_options \<Rightarrow> driver" where
  "WebDriver params =
     \<lparr>host = or_default (opt_host params) ''127.0.0.1'',
      port = (case opt_port params of None \<Rightarrow> 4444 | Some n \<Rightarrow> if n \<noteq> 0 then n else 4444),
      default_method = or_default (opt_method params) ''POST'',
      sessionBasePath = ''/wd/hub/session'',
      desiredCapabilities =
        extend_obj [(''browserName'', JStr ''firefox''), (''version'', JStr ''''),
                (''javascriptEnabled'', JBool True), (''platform'', JStr ''ANY'')]
          (opt_desiredCapabilities params),
      defaults_using = (case opt_defaults_using params of None \<Rightarrow> ''css selector'' | Some u \<Rightarrow> u),
      timeouts =
        extend_obj [(''page load'', 3500), (''script'', 1000), (''implicit'', 0), (''waitFor'', 3000)]
          (opt_timeouts params),
      protocolTimeoutsHash = [''page load'', ''script'', ''implicit''],
      sessionId = None\<rparr>"

text \<open>
  The request \<^verbatim>\<open>_cmd\<close> hands to the transport. The two headers (content type and the
  byte length of the serialized payload) are left out: they need the serializer.
\<close>

record request =
  req_host :: string
  req_port :: nat
  req_path :: string
  req_method :: string
  req_data :: "json option"

definition cmd_request :: "driver \<Rightarrow> cmd_params \<Rightarrow> request" where
  "cmd_request d params =
     \<lparr>req_host = host d,
      req_port = port d,
      req_path = sessionBasePath d @ cpath params,
      req_method = or_default (cmethod params) (default_method d),
      req_data = (case cdata params of None \<Rightarrow> None | Some j \<Rightarrow> if truthy j then Some j else None)\<rparr>"

subsection \<open>Timeouts\<close>

text \<open>
  The \<^verbatim>\<open>in\<close> operator on an object literal: true for the object's own keys and for the
  properties it inherits from \<^verbatim>\<open>Object.prototype\<close>, which in Node are the seven of
  ECMAScript 5 and the five older ones with underscores.
\<close>

definition object_prototype_keys :: "string list" where
  "object_prototype_keys =
     [''constructor'', ''toString'', ''toLocaleString'', ''valueOf'', ''hasOwnProperty'',
      ''isPrototypeOf'', ''propertyIsEnumerable'', ''__defineGetter__'', ''__defineSetter__'',
      ''__lookupGetter__'', ''__lookupSetter__'', ''__proto__'']"

definition js_in :: "string \<Rightarrow> string list \<Rightarrow> bool" where
  "js_in k own_keys = (k \<in> set own_keys \<or> k \<in> set object_prototype_keys)"

text \<open>\<^verbatim>\<open>table[k] = v\<close>: an existing key keeps its place, a new key goes last.\<close>

definition table_set :: "string \<Rightarrow> 'a \<Rightarrow> (string \<times> 'a) list \<Rightarrow> (string \<times> 'a) list" where
  "table_set k v tbl =
     (if k \<in> fst ` set tbl then map (\<lambda>kv. if fst kv = k then (k, v) else kv) tbl
      else tbl @ [(k, v)])"

text \<open>
  \<^verbatim>\<open>table['__proto__'] = v\<close> stores nothing when \<open>v\<close> is a number.
\<close>

definition store_timeout :: "string \<Rightarrow> int \<Rightarrow> (string \<times> int) list \<Rightarrow> (string \<times> int) list" where
  "store_timeout type timeout tbl = (if type = ''__proto__'' then tbl else table_set type timeout tbl)"

text \<open>
  Reading \<^verbatim>\<open>self.timeouts.name\<close> for a name that \<^verbatim>\<open>Object.prototype\<close> does not hold
  (\<^verbatim>\<open>waitFor\<close>, \<^verbatim>\<open>waitForUrlChange\<close>): the entry of the table, \<open>None\<close> for
  \<^verbatim>\<open>undefined\<close>.
\<close>

definition timeouts_entry :: "driver \<Rightarrow> string \<Rightarrow> int option" where
  "timeouts_entry d name = map_of (timeouts d) name"

text \<open>
  What happens when a function that an object literal inherits from \<^verbatim>\<open>Object.prototype\<close>
  is called in place of one of the library's own, with a callback among the arguments: it
  returns without ever calling back, or it throws. \<^verbatim>\<open>__proto__\<close> is no function;
  \<^verbatim>\<open>__defineGetter__\<close> and \<^verbatim>\<open>__defineSetter__\<close> throw unless their second argument is
  a function.
\<close>

definition inherited_call :: "string \<Rightarrow> bool \<Rightarrow> outcome" where
  "inherited_call name second_is_function =
     (if name = ''__proto__'' then Throws ''TypeError''
      else if name = ''__defineGetter__'' \<or> name = ''__defineSetter__'' then
        (if second_is_function then NeverCalled else Throws ''TypeError'')
      else NeverCalled)"

text \<open>
  What an operation of the driver leaves behind: the requests it issued, the calls of its
  callback in order, and the driver afterwards.
\<close>

record effect =
  issued :: "request list"
  calls :: "outcome list"
  after :: driver

definition timeouts_params :: "string \<Rightarrow> int \<Rightarrow> cmd_params" where
  "timeouts_params type timeout =
     \<lparr>cpath = ''/timeouts'', cmethod = Some ''POST'',
      cdata = Some (JObj [(''type'', JStr type), (''ms'', JNum timeout)]), resNeeded = False\<rparr>"

text \<open>\<^verbatim>\<open>setTimeout\<close>; \<open>tr\<close> is the transport's answer if a command is issued.\<close>

definition setTimeout :: "collab \<Rightarrow> driver \<Rightarrow> string \<Rightarrow> int \<Rightarrow> transport \<Rightarrow> effect" where
  "setTimeout w d type timeout tr =
     (if js_in type (protocolTimeoutsHash d) then
        (case cmd_callback w (timeouts_params type timeout) tr of
           Callback (Some err) _ \<Rightarrow>
             \<lparr>issued = [cmd_request d (timeouts_params type timeout)],
              calls = [Callback (Some err) Undefined], after = d\<rparr>
         | Callback None _ \<Rightarrow>
             \<lparr>issued = [cmd_request d (timeouts_params type timeout)],
              calls = [Callback None DriverSelf],
              after = d\<lparr>timeouts := store_timeout type timeout (timeouts d)\<rparr>\<rparr>
         | other \<Rightarrow>
             \<lparr>issued = [cmd_request d (timeouts_params type timeout)],
              calls = [other], after = d\<rparr>)
      else
        \<lparr>issued = [], calls = [Callback None DriverSelf],
         after = d\<lparr>timeouts := store_timeout type timeout (timeouts d)\<rparr>\<rparr>)"

text \<open>
  \<^verbatim>\<open>setTimeouts\<close> calls \<^verbatim>\<open>setTimeout\<close> for every key of the table, in the table's order,
  with \<^verbatim>\<open>callbackWrapper\<close> as the callback: an error goes to the caller at once, and the
  caller is called without error when the count of successes reaches the number of keys.
  The answers of the server are taken in the order of the commands.
\<close>

definition callbackWrapper :: "nat \<Rightarrow> nat \<Rightarrow> outcome \<Rightarrow> outcome list \<times> nat" where
  "callbackWrapper count current oc =
     (case oc of
        Callback (Some err) _ \<Rightarrow> ([Callback (Some err) Undefined], current)
      | Callback None _ \<Rightarrow>
          (if Suc current = count then [Callback None Undefined] else [], Suc current)
      | other \<Rightarrow> ([other], current))"

fun wrap_calls :: "nat \<Rightarrow> nat \<Rightarrow> outcome list \<Rightarrow> outcome list \<times> nat" where
  "wrap_calls count current [] = ([], current)"
| "wrap_calls count current (oc # ocs) =
     (let (here, current') = callbackWrapper count current oc;
          (later, current'') = wrap_calls count current' ocs
      in (here @ later, current''))"

fun setTimeouts_from ::
  "collab \<Rightarrow> (string \<Rightarrow> transport) \<Rightarrow> nat \<Rightarrow> (string \<times> int) list \<Rightarrow> nat \<Rightarrow> driver \<Rightarrow> effect"
where
  "setTimeouts_from w reply count [] current d = \<lparr>issued = [], calls = [], after = d\<rparr>"
| "setTimeouts_from w reply count (entry # rest) current d =
     (let e = setTimeout w d (fst entry) (snd entry) (reply (fst entry));
          (here, current') = wrap_calls count current (calls e);
          r = setTimeouts_from w reply count rest current' (after e)
      in \<lparr>issued = issued e @ issued r, calls = here @ calls r, after = after r\<rparr>)"

definition setTimeouts ::
  "collab \<Rightarrow> driver \<Rightarrow> (string \<times> int) list \<Rightarrow> (string \<Rightarrow> transport) \<Rightarrow> effect"
where
  "setTimeouts w d tbl reply = setTimeouts_from w reply (length tbl) tbl 0 d"

subsection \<open>Starting the session\<close>

text \<open>\<^verbatim>\<open>str.split(c)\<close> for a one-character separator.\<close>

fun split_on :: "char \<Rightarrow> string \<Rightarrow> string list" where
  "split_on c [] = [[]]"
| "split_on c (x # xs) =
     (if x = c then [] # split_on c xs
      else (case split_on c xs of [] \<Rightarrow> [[x]] | y # ys \<Rightarrow> (x # y) # ys))"

text \<open>
  Where \<^verbatim>\<open>init\<close> finds the session id: in the body's \<^verbatim>\<open>sessionId\<close> when that is truthy,
  else in the last segment of a non-empty \<^verbatim>\<open>location\<close> header.
\<close>

definition session_id :: "(string \<times> string) list \<Rightarrow> json \<Rightarrow> json option" where
  "session_id hs dat =
     (if truthy_opt (get_prop dat ''sessionId'') then get_prop dat ''sessionId''
      else (case map_of hs ''location'' of
              None \<Rightarrow> None
            | Some loc \<Rightarrow>
                if loc \<noteq> [] then Some (JStr (last (split_on CHR ''/'' loc))) else None))"

definition init_params :: "driver \<Rightarrow> cmd_params" where
  "init_params d =
     \<lparr>cpath = '''', cmethod = None,
      cdata = Some (JObj [(''desiredCapabilities'', JObj (desiredCapabilities d))]),
      resNeeded = True\<rparr>"

text \<open>
  \<^verbatim>\<open>init\<close>: \<open>tr\<close> answers the session command, \<open>reply type\<close> answers the timeout
  command for \<open>type\<close>.
\<close>

definition init :: "collab \<Rightarrow> driver \<Rightarrow> transport \<Rightarrow> (string \<Rightarrow> transport) \<Rightarrow> effect" where
  "init w d tr reply =
     (case cmd_callback w (init_params d) tr of
        Callback (Some err) _ \<Rightarrow>
          \<lparr>issued = [cmd_request d (init_params d)],
           calls = [Callback (Some err) Undefined], after = d\<rparr>
      | Callback None (RawResponse hs dat) \<Rightarrow>
          (case session_id hs dat of
             None \<Rightarrow>
               \<lparr>issued = [cmd_request d (init_params d)],
                calls = [Callback (Some (new_error NativeError ''Can`t determine session id'' []))
                           Undefined],
                after = d\<rparr>
           | Some sid \<Rightarrow>
               (let d' = d\<lparr>sessionId := Some sid,
                           sessionBasePath := sessionBasePath d @ ''/'' @ js_to_string sid\<rparr>;
                    e = setTimeouts w d' (timeouts d') reply
                in \<lparr>issued = cmd_request d (init_params d) # issued e,
                    calls = map (\<lambda>oc. case oc of Callback err _ \<Rightarrow> Callback err DriverSelf
                                       | other \<Rightarrow> other) (calls e),
                    after = after e\<rparr>))
      | other \<Rightarrow>
          \<lparr>issued = [cmd_request d (init_params d)], calls = [other], after = d\<rparr>)"

text \<open>A stub server's collaborators and a driver built without options, for concrete runs.\<close>

definition stub_collab :: collab where
  "stub_collab =
     \<lparr>JSON_parse = (\<lambda>s. if s = ''{}'' then Inr (JObj []) else Inl ''Unexpected token''),
      getProtocolErrorContructor = (\<lambda>st. if st = JNum 7 then NoSuchElementError else NativeError)\<rparr>"

definition no_options :: driver_options where
  "no_options =
     \<lparr>opt_host = None, opt_port = None, opt_method = None, opt_desiredCapabilities = [],
      opt_defaults_using = None, opt_timeouts = []\<rparr>"

section \<open>The polling engine \<^verbatim>\<open>waitFor\<close>\<close>

text \<open>
  \<^verbatim>\<open>waitFor\<close> runs on the event loop. The model keeps the pending events with the time
  (in ms) at which each is due, in the order of their creation; the loop runs the earliest
  one, the older one first when two are due together. An event is the poll timer, the
  deadline timer, or the predicate's report arriving (\<^verbatim>\<open>waitcb(done)\<close>).
\<close>

datatype wait_event = Poll | Deadline | Report bool

record wait_params =
  wp_timeout :: "int option"
  wp_noError :: bool
  wp_errorMessage :: "string option"

record wait_state =
  pending :: "(nat \<times> wait_event) list"
  isDone :: bool
  isTimeoutExceeded :: bool
  invoked :: nat
  reported :: "outcome list"

definition delay :: nat where
  "delay = 20"

text \<open>
  \<^verbatim>\<open>params.timeout || self.timeouts.waitFor\<close>; \<open>None\<close> when both are
  \<^verbatim>\<open>undefined\<close>.
\<close>

definition wait_timeout :: "driver \<Rightarrow> wait_params \<Rightarrow> int option" where
  "wait_timeout d params =
     (case wp_timeout params of
        None \<Rightarrow> timeouts_entry d ''waitFor''
      | Some t \<Rightarrow> if t \<noteq> 0 then Some t else timeouts_entry d ''waitFor'')"

text \<open>
  The delay of a timer armed with \<^verbatim>\<open>setTimeout(f, t)\<close>: Node takes 1 ms for a delay that
  is below 1, above \<open>2\<^sup>3\<^sup>1 - 1\<close>, or no number.
\<close>

definition timer_delay :: "int option \<Rightarrow> nat" where
  "timer_delay t =
     (case t of
        None \<Rightarrow> 1
      | Some ms \<Rightarrow> if ms < 1 \<or> 2147483647 < ms then 1 else nat ms)"

definition timeout_error :: "int option \<Rightarrow> wait_params \<Rightarrow> error" where
  "timeout_error timeout params =
     new_error NativeError
       (''Timeout ('' @
        (case timeout of None \<Rightarrow> ''undefined'' | Some ms \<Rightarrow> js_to_string (JNum ms)) @
        '' ms) exceeded'' @
        (case wp_errorMessage params of
           None \<Rightarrow> []
         | Some m \<Rightarrow> if m \<noteq> [] then '' while '' @ m else []))
       []"

text \<open>The inner function \<^verbatim>\<open>execute\<close>, called at time \<open>now\<close>: it arms both timers.\<close>

definition wait_execute :: "int option \<Rightarrow> nat \<Rightarrow> wait_state \<Rightarrow> wait_state" where
  "wait_execute timeout now s =
     s\<lparr>pending := pending s @ [(now + delay, Poll), (now + timer_delay timeout, Deadline)]\<rparr>"

text \<open>The function handed to \<^verbatim>\<open>func\<close> as \<^verbatim>\<open>waitcb\<close>.\<close>

definition on_report :: "int option \<Rightarrow> nat \<Rightarrow> bool \<Rightarrow> wait_state \<Rightarrow> wait_state" where
  "on_report timeout now done s =
     (let s1 = s\<lparr>isDone := done\<rparr>
      in if done \<and> \<not> isTimeoutExceeded s1
         then s1\<lparr>reported := reported s1 @ [Callback None DriverSelf]\<rparr>
         else if \<not> isTimeoutExceeded s1 then wait_execute timeout now s1
         else s1)"

text \<open>
  One event. The predicate \<open>func\<close> is given by what its \<open>n\<close>-th invocation does: it
  never reports (\<open>None\<close>), or reports \<open>done\<close> after \<open>latency\<close> ms, at once when the
  latency is 0.
\<close>

definition on_event ::
  "(nat \<Rightarrow> (nat \<times> bool) option) \<Rightarrow> wait_params \<Rightarrow> int option \<Rightarrow> nat \<Rightarrow> wait_event \<Rightarrow>
   wait_state \<Rightarrow> wait_state"
where
  "on_event func params timeout now ev s =
     (case ev of
        Poll \<Rightarrow>
          (let s1 = s\<lparr>invoked := Suc (invoked s)\<rparr>
           in case func (invoked s) of
                None \<Rightarrow> s1
              | Some (latency, done) \<Rightarrow>
                  if latency = 0 then on_report timeout now done s1
                  else s1\<lparr>pending := pending s1 @ [(now + latency, Report done)]\<rparr>)
      | Report done \<Rightarrow> on_report timeout now done s
      | Deadline \<Rightarrow>
          if \<not> isDone s
          then s\<lparr>isTimeoutExceeded := True,
                 reported := reported s @
                   [if wp_noError params then Callback None Undefined
                    else Callback (Some (timeout_error timeout params)) Undefined]\<rparr>
          else s)"

definition next_due :: "(nat \<times> wait_event) list \<Rightarrow> nat" where
  "next_due evs = fold min (map fst evs) (fst (hd evs))"

fun take_due :: "nat \<Rightarrow> (nat \<times> wait_event) list \<Rightarrow> wait_event option \<times> (nat \<times> wait_event) list" where
  "take_due t [] = (None, [])"
| "take_due t (e # es) =
     (if fst e = t then (Some (snd e), es)
      else (case take_due t es of (found, rest) \<Rightarrow> (found, e # rest)))"

text \<open>The event loop, for at most \<open>fuel\<close> events; it stops when nothing is pending.\<close>

fun wait_loop ::
  "nat \<Rightarrow> (nat \<Rightarrow> (nat \<times> bool) option) \<Rightarrow> wait_params \<Rightarrow> int option \<Rightarrow> wait_state \<Rightarrow>
   wait_state"
where
  "wait_loop 0 func params timeout s = s"
| "wait_loop (Suc fuel) func params timeout s =
     (if pending s = [] then s
      else (case take_due (next_due (pending s)) (pending s) of
              (None, rest) \<Rightarrow> s
            | (Some ev, rest) \<Rightarrow>
                wait_loop fuel func params timeout
                  (on_event func params timeout (next_due (pending s)) ev (s\<lparr>pending := rest\<rparr>))))"

definition waitFor ::
  "nat \<Rightarrow> driver \<Rightarrow> (nat \<Rightarrow> (nat \<times> bool) option) \<Rightarrow> wait_params \<Rightarrow> wait_state"
where
  "waitFor fuel d func params =
     wait_loop fuel func params (wait_timeout d params)
       (wait_execute (wait_timeout d params) 0
          \<lparr>pending = [], isDone = False, isTimeoutExceeded = False, invoked = 0, reported = []\<rparr>)"

section \<open>Waiting for a change of the URL\<close>




text \<open>
  \<^verbatim>\<open>url.replace(/\?.*$/, '')\<close>: the match starts at the first \<^verbatim>\<open>?\<close> that no line
  terminator follows (\<^verbatim>\<open>.\<close> does not match one and \<^verbatim>\<open>$\<close> is the end of the string), and
  takes the rest of the string. The characters of the model are 8-bit: the line terminators
  among them are LF and CR.
\<close>

definition line_terminator :: "char \<Rightarrow> bool" where
  "line_terminator c = (c = CHR 0x0A \<or> c = CHR 0x0D)"

fun strip_query :: "string \<Rightarrow> string" where
  "strip_query [] = []"
| "strip_query (c # cs) =
     (if c = CHR ''?'' \<and> \<not> list_ex line_terminator cs then [] else c # strip_query cs)"






section \<open>Selector resolution\<close>

subsection \<open>The query\<close>

text \<open>
  The selector parameters: \<^verbatim>\<open>using\<close>, \<^verbatim>\<open>noError\<close>, \<^verbatim>\<open>chain\<close> (a list of steps, each
  an object) and \<^verbatim>\<open>parent\<close>. A parent is an element handle, known by its id, or some
  other truthy value.
\<close>

datatype parent_arg = ParentElement "json option" | NotAnElement

record sel_params =
  sp_using :: "string option"
  sp_noError :: bool
  sp_chain :: "(string \<times> json) list list option"
  sp_parent :: "parent_arg option"

definition no_params :: sel_params where
  "no_params = \<lparr>sp_using = None, sp_noError = False, sp_chain = None, sp_parent = None\<rparr>"

text \<open>The query after \<^verbatim>\<open>_getIds\<close> has normalized it.\<close>

record query =
  q_selector :: string
  q_using :: string
  q_isSingle :: bool
  q_noError :: bool
  q_parentId :: "json option"
  q_chain :: "(string \<times> json) list list option"

definition opt_js :: "json option \<Rightarrow> jsval" where
  "opt_js v = (case v of None \<Rightarrow> Undefined | Some j \<Rightarrow> Json j)"

subsection \<open>The script of the \<^verbatim>\<open>jquery\<close> strategy, as the browser runs it\<close>

text \<open>
  What is prepended to the script: nothing, \<^verbatim>\<open>jqueryGetElementsInjection\<close>, or
  \<^verbatim>\<open>jqueryAndGetElementsInjection\<close>.
\<close>

datatype injection = NoInjection | GetElementsInjection | JqueryAndGetElementsInjection

text \<open>
  The page when the script starts: whether \<^verbatim>\<open>window.___nwdJquery\<close> and
  \<^verbatim>\<open>window.___nwdJqGetElements\<close> are functions, and what \<^verbatim>\<open>$(selector, parent)\<close> selects
  (the element references, as the server sends them), \<open>None\<close> when it throws.
\<close>

record page =
  hasJquery :: bool
  hasGetElements :: bool
  selection :: "json list option"

text \<open>
  The selection library is a parameter. The variable \<^verbatim>\<open>elements\<close> holds a collection of
  the library or some other value, of which only the truth of \<^verbatim>\<open>v && v.length\<close> matters.
  \<^verbatim>\<open>elements[func]\<close> is falsy, a truthy value that is no function, or a method, which
  returns a value or throws (\<open>None\<close>).
\<close>

datatype jqval = Collection "json list" | NonCollection bool

datatype jq_prop = Falsy | NonFunction | Method "json list \<Rightarrow> jqval option"

type_synonym jq_lib = "string \<Rightarrow> jqval \<Rightarrow> jq_prop"

datatype script_result = Returned json | ScriptThrew

text \<open>
  One step of the chain: \<^verbatim>\<open>$.each(object, ...)\<close> leaves the last key in \<^verbatim>\<open>func\<close> and its
  value in \<^verbatim>\<open>args\<close> (\<^verbatim>\<open>null\<close> for both when the object is empty).
\<close>

definition step_func :: "(string \<times> json) list \<Rightarrow> string" where
  "step_func step = (if step = [] then ''null'' else fst (last step))"

definition step_args :: "(string \<times> json) list \<Rightarrow> json list" where
  "step_args step =
     (if step = [] then [JNull]
      else (case snd (last step) of JArr xs \<Rightarrow> xs | v \<Rightarrow> [v]))"

fun apply_chain :: "jq_lib \<Rightarrow> (string \<times> json) list list \<Rightarrow> jqval \<Rightarrow> jqval option" where
  "apply_chain lib [] elements = Some elements"
| "apply_chain lib (step # steps) elements =
     (case lib (step_func step) elements of
        Falsy \<Rightarrow> None
      | NonFunction \<Rightarrow> None
      | Method f \<Rightarrow>
          (case f (step_args step) of
             None \<Rightarrow> None
           | Some elements' \<Rightarrow> apply_chain lib steps elements'))"

text \<open>\<^verbatim>\<open>___nwdJqGetElements(selector, parent, chain)\<close>\<close>

definition nwdJqGetElements ::
  "jq_lib \<Rightarrow> page \<Rightarrow> (string \<times> json) list list option \<Rightarrow> script_result"
where
  "nwdJqGetElements lib pg chain =
     (case selection pg of
        None \<Rightarrow> ScriptThrew
      | Some selected \<Rightarrow>
          (case (case chain of
                   None \<Rightarrow> Some (Collection selected)
                 | Some steps \<Rightarrow>
                     if selected \<noteq> [] then apply_chain lib steps (Collection selected)
                     else Some (Collection selected)) of
             None \<Rightarrow> ScriptThrew
           | Some (Collection elements) \<Rightarrow> Returned (JArr elements)
           | Some (NonCollection lengthy) \<Rightarrow>
               if lengthy then ScriptThrew else Returned (JArr [])))"

text \<open>
  The script \<^verbatim>\<open>jqueryGetElementIds\<close> sends. A name is declared in the script itself when
  its source is prepended; \<^verbatim>\<open>___nwdJquery\<close> comes with
  \<^verbatim>\<open>jqueryAndGetElementsInjection\<close> only, \<^verbatim>\<open>___nwdJqGetElements\<close> with both injections.
\<close>

definition injected_script ::
  "jq_lib \<Rightarrow> page \<Rightarrow> injection \<Rightarrow> (string \<times> json) list list option \<Rightarrow> script_result"
where
  "injected_script lib pg pre chain =
     (if \<not> hasJquery pg \<and> pre \<noteq> JqueryAndGetElementsInjection then Returned (JStr ''needJquery'')
      else if \<not> hasGetElements pg \<and> pre = NoInjection then Returned (JStr ''needFunc'')
      else nwdJqGetElements lib pg chain)"

subsection \<open>The client\<close>

text \<open>
  The remote side, as the client meets it: the answer to the find command of the native
  strategy, the text of the script for each injection, and the answer to the \<open>n\<close>-th
  \<^verbatim>\<open>execute\<close> command of a resolution, which may depend on what was injected.
\<close>

record remote =
  find_answer :: transport
  script_text :: "injection \<Rightarrow> string"
  execute_answer :: "nat \<Rightarrow> injection \<Rightarrow> transport"

definition execute_params :: "string \<Rightarrow> json \<Rightarrow> bool \<Rightarrow> cmd_params" where
  "execute_params script args isAsync =
     \<lparr>cpath = ''/execute'' @ (if isAsync then ''_async'' else []), cmethod = Some ''POST'',
      cdata = Some (JObj [(''script'', JStr script), (''args'', args)]), resNeeded = False\<rparr>"

text \<open>The arguments of the script; \<^verbatim>\<open>undefined\<close> is serialized as \<^verbatim>\<open>null\<close>.\<close>

definition jq_args :: "query \<Rightarrow> json" where
  "jq_args q =
     JArr [JStr (q_selector q),
           (case q_parentId q of
              None \<Rightarrow> JNull
            | Some i \<Rightarrow> if truthy i then JObj [(''ELEMENT'', i)] else i),
           (case q_chain q of None \<Rightarrow> JNull | Some steps \<Rightarrow> JArr (map JObj steps))]"

definition jq_params :: "remote \<Rightarrow> query \<Rightarrow> injection \<Rightarrow> cmd_params" where
  "jq_params r q pre = execute_params (script_text r pre) (jq_args q) False"

text \<open>What \<^verbatim>\<open>jqueryGetElementIds\<close> does with a result that is not a string.\<close>

definition jq_elements :: "query \<Rightarrow> jsval \<Rightarrow> outcome" where
  "jq_elements q result =
     (case result of
        Json (JArr items) \<Rightarrow>
          if JNull \<in> set items then Throws ''TypeError''
          else if items = [] then
            (if q_isSingle q
             then Callback (Some (new_error NoSuchElementError []
                    [(''element'', JStr (q_selector q)), (''using'', JStr (q_using q))])) Undefined
             else Callback None (ListOf []))
          else Callback None (ListOf (map (\<lambda>item. opt_js (get_prop item ''ELEMENT'')) items))
      | _ \<Rightarrow> Throws ''TypeError'')"

text \<open>
  The inner function \<^verbatim>\<open>execute\<close> of \<^verbatim>\<open>jqueryGetElementIds\<close>, which calls itself when the
  result is a string. The code sets no bound on that; the model runs it for at most \<open>fuel\<close>
  executions and returns the injections of the executions made, and the outcome, \<open>None\<close>
  when the fuel ran out.
\<close>

fun jq_execute ::
  "collab \<Rightarrow> remote \<Rightarrow> query \<Rightarrow> nat \<Rightarrow> nat \<Rightarrow> injection \<Rightarrow> injection list \<times> outcome option"
where
  "jq_execute w r q 0 n pre = ([], None)"
| "jq_execute w r q (Suc fuel) n pre =
     (case cmd_callback w (jq_params r q pre) (execute_answer r n pre) of
        Callback (Some err) _ \<Rightarrow> ([pre], Some (Callback (Some err) Undefined))
      | Callback None (Json (JStr s)) \<Rightarrow>
          (case jq_execute w r q fuel (Suc n)
                  (if s = ''needJquery'' then JqueryAndGetElementsInjection
                   else GetElementsInjection) of
             (trace, oc) \<Rightarrow> (pre # trace, oc))
      | Callback None result \<Rightarrow> ([pre], Some (jq_elements q result))
      | other \<Rightarrow> ([pre], Some other))"

definition jqueryGetElementIds ::
  "collab \<Rightarrow> remote \<Rightarrow> query \<Rightarrow> nat \<Rightarrow> injection list \<times> outcome option"
where
  "jqueryGetElementIds w r q fuel = jq_execute w r q fuel 0 NoInjection"

text \<open>
  \<^verbatim>\<open>customStrategyHash[params.using]\<close>: the object literal holds \<^verbatim>\<open>jquery\<close>, and reading
  it by an inherited name gives a property of \<^verbatim>\<open>Object.prototype\<close>, which is then called
  as the strategy, with the parameters as its second argument.
\<close>

datatype strategy = JqueryStrategy | InheritedProperty | NativeStrategy

definition customStrategy :: "string \<Rightarrow> strategy" where
  "customStrategy name =
     (if name = ''jquery'' then JqueryStrategy
      else if name \<in> set object_prototype_keys then InheritedProperty
      else NativeStrategy)"

text \<open>\<^verbatim>\<open>str.replace(/pat/g, rep)\<close> for a pattern that is plain text.\<close>

function replace_all :: "string \<Rightarrow> string \<Rightarrow> string \<Rightarrow> string" where
  "replace_all pat rep s =
     (if pat = [] \<or> s = [] then s
      else if take (length pat) s = pat then rep @ replace_all pat rep (drop (length pat) s)
      else hd s # replace_all pat rep (tl s))"
  by pat_completeness auto
termination
  by (relation "measure (\<lambda>(pat, rep, s). length s)") auto

definition quoted :: "string \<Rightarrow> string" where
  "quoted s = CHR 0x22 # s @ [CHR 0x22]"

definition sweetenCssSelector :: "string \<Rightarrow> string" where
  "sweetenCssSelector v =
     replace_all '':hidden''
       (''[style*='' @ quoted ''display:none'' @ ''],[style*='' @ quoted ''display: none'' @
        ''],[style*='' @ quoted ''opacity: 0'' @ ''],[style*='' @ quoted ''opacity:0'' @ '']'')
       (replace_all '':visible''
          ('':not([style*='' @ quoted ''display:none'' @ '']):not([style*='' @
           quoted ''display: none'' @ ''])'') v)"

definition find_params :: "query \<Rightarrow> cmd_params" where
  "find_params q =
     (let plural = (if q_isSingle q then [] else ''s'');
          parentPath = (case q_parentId q of
                          None \<Rightarrow> plural
                        | Some i \<Rightarrow>
                            if truthy i then ''/'' @ js_to_string i @ ''/element'' @ plural
                            else plural)
      in \<lparr>cpath = ''/element'' @ parentPath, cmethod = Some ''POST'',
          cdata = Some (JObj [(''using'', JStr (q_using q)),
                              (''value'', JStr (sweetenCssSelector (q_selector q)))]),
          resNeeded = False\<rparr>)"

text \<open>\<^verbatim>\<open>parametrizeError\<close>, for an error that is there.\<close>

definition parametrizeError :: "query \<Rightarrow> error \<Rightarrow> error" where
  "parametrizeError q err =
     parametrize [(''element'', JStr (q_selector q)), (''using'', JStr (q_using q))] err"

text \<open>
  The callback \<^verbatim>\<open>_getIds\<close> gives to either strategy; \<open>pick\<close> is what it makes of a value
  delivered without error.
\<close>

definition getIds_callback :: "query \<Rightarrow> (jsval \<Rightarrow> outcome) \<Rightarrow> outcome \<Rightarrow> outcome" where
  "getIds_callback q pick oc =
     (case oc of
        Callback (Some err) _ \<Rightarrow>
          if q_noError q \<and> cls err = NoSuchElementError then Callback None (Json JNull)
          else Callback (Some (parametrizeError q err)) (Json (JBool False))
      | Callback None v \<Rightarrow> pick v
      | other \<Rightarrow> other)"

text \<open>\<^verbatim>\<open>params.isSingle ? elements[0] : elements\<close>\<close>

definition pick_custom :: "query \<Rightarrow> jsval \<Rightarrow> outcome" where
  "pick_custom q elements =
     (if q_isSingle q then
        (case elements of
           ListOf (x # xs) \<Rightarrow> Callback None x
         | ListOf [] \<Rightarrow> Callback None Undefined
         | _ \<Rightarrow> Throws ''TypeError'')
      else Callback None elements)"

text \<open>\<^verbatim>\<open>params.isSingle ? value.ELEMENT : value.map(function(item) { return item.ELEMENT; })\<close>\<close>

definition pick_native :: "query \<Rightarrow> jsval \<Rightarrow> outcome" where
  "pick_native q v =
     (if q_isSingle q then
        (case v of
           Json j \<Rightarrow> Callback None (opt_js (get_prop j ''ELEMENT''))
         | _ \<Rightarrow> Callback None Undefined)
      else
        (case v of
           Json (JArr items) \<Rightarrow>
             if JNull \<in> set items then Throws ''TypeError''
             else Callback None (ListOf (map (\<lambda>item. opt_js (get_prop item ''ELEMENT'')) items))
         | _ \<Rightarrow> Throws ''TypeError''))"

text \<open>
  \<^verbatim>\<open>_getIds\<close>, with \<^verbatim>\<open>params.isSingle\<close> as set by the caller. \<open>None\<close>: the script strategy
  was still re-executing when the fuel ran out.
\<close>

definition normalize_query :: "driver \<Rightarrow> string \<Rightarrow> sel_params \<Rightarrow> bool \<Rightarrow> query" where
  "normalize_query d selector params isSingle =
     \<lparr>q_selector = selector,
      q_using = or_default (sp_using params) (defaults_using d),
      q_isSingle = isSingle,
      q_noError = sp_noError params,
      q_parentId = (case sp_parent params of Some (ParentElement i) \<Rightarrow> i | _ \<Rightarrow> None),
      q_chain = sp_chain params\<rparr>"

definition getIds ::
  "collab \<Rightarrow> driver \<Rightarrow> remote \<Rightarrow> nat \<Rightarrow> string \<Rightarrow> sel_params \<Rightarrow> bool \<Rightarrow> outcome option"
where
  "getIds w d r fuel selector params isSingle =
     (if sp_parent params = Some NotAnElement
      then Some (Throws ''Parent should be instanceof WebElement'')
      else
        (let q = normalize_query d selector params isSingle
         in case customStrategy (q_using q) of
              JqueryStrategy \<Rightarrow>
                map_option (getIds_callback q (pick_custom q)) (snd (jqueryGetElementIds w r q fuel))
            | InheritedProperty \<Rightarrow> Some (inherited_call (q_using q) False)
            | NativeStrategy \<Rightarrow>
                Some (getIds_callback q (pick_native q)
                        (cmd_callback w (find_params q) (find_answer r)))))"

text \<open>\<^verbatim>\<open>get\<close> and \<^verbatim>\<open>getList\<close>; \<open>None\<close> for the parameters when the caller leaves them out.\<close>

definition get_callback :: "outcome \<Rightarrow> outcome" where
  "get_callback oc =
     (case oc of
        Callback (Some err) _ \<Rightarrow> Callback (Some err) (Json (JBool False))
      | Callback None ident \<Rightarrow> Callback None (if truthy_js ident then WebElement ident else ident)
      | other \<Rightarrow> other)"

definition get ::
  "collab \<Rightarrow> driver \<Rightarrow> remote \<Rightarrow> nat \<Rightarrow> string \<Rightarrow> sel_params option \<Rightarrow> outcome option"
where
  "get w d r fuel selector params =
     map_option get_callback
       (getIds w d r fuel selector (case params of None \<Rightarrow> no_params | Some p \<Rightarrow> p) True)"

definition getList_callback :: "outcome \<Rightarrow> outcome" where
  "getList_callback oc =
     (case oc of
        Callback (Some err) _ \<Rightarrow> Callback (Some err) (Json (JBool False))
      | Callback None (ListOf ids) \<Rightarrow> Callback None (ListOf (map WebElement ids))
      | Callback None _ \<Rightarrow> Throws ''TypeError''
      | other \<Rightarrow> other)"

definition getList ::
  "collab \<Rightarrow> driver \<Rightarrow> remote \<Rightarrow> nat \<Rightarrow> string \<Rightarrow> sel_params option \<Rightarrow> outcome option"
where
  "getList w d r fuel selector params =
     map_option getList_callback
       (getIds w d r fuel selector (case params of None \<Rightarrow> no_params | Some p \<Rightarrow> p) False)"

subsection \<open>The browser behind the \<^verbatim>\<open>execute\<close> command\<close>

text \<open>
  Two readings of "the browser runs the script that was sent", for a resolution of the
  query \<open>q\<close> against the pages \<open>pages n\<close> found by the \<open>n\<close>-th execution. The weak
  one: whenever an \<^verbatim>\<open>execute\<close> command succeeds, its value is what the script returned
  (a command may also fail for any reason). The strong one: every command delivers what the
  script returned, and a script that throws is reported as an error that is not of the class
  "no such element".
\<close>

definition script_or_failure ::
  "collab \<Rightarrow> remote \<Rightarrow> query \<Rightarrow> jq_lib \<Rightarrow> (nat \<Rightarrow> page) \<Rightarrow> bool"
where
  "script_or_failure w r q lib pages =
     (\<forall>n pre v.
        cmd_callback w (jq_params r q pre) (execute_answer r n pre) = Callback None v \<longrightarrow>
        (\<exists>j. injected_script lib (pages n) pre (q_chain q) = Returned j \<and> v = unwrap (Some j)))"

definition script_answer ::
  "collab \<Rightarrow> remote \<Rightarrow> query \<Rightarrow> jq_lib \<Rightarrow> (nat \<Rightarrow> page) \<Rightarrow> bool"
where
  "script_answer w r q lib pages =
     (\<forall>n pre.
        case injected_script lib (pages n) pre (q_chain q) of
          Returned j \<Rightarrow>
            cmd_callback w (jq_params r q pre) (execute_answer r n pre) =
              Callback None (unwrap (Some j))
        | ScriptThrew \<Rightarrow>
            (\<exists>err. cmd_callback w (jq_params r q pre) (execute_answer r n pre) =
                     Callback (Some err) Undefined \<and> cls err \<noteq> NoSuchElementError))"

text \<open>
  What one execution may do, for a property \<open>good\<close> of final outcomes: it ends the
  resolution with a good outcome, or the script returned a sentinel and \<^verbatim>\<open>execute\<close> runs
  again with the injection the sentinel asks for.
\<close>

definition one_execution ::
  "collab \<Rightarrow> remote \<Rightarrow> query \<Rightarrow> jq_lib \<Rightarrow> (nat \<Rightarrow> page) \<Rightarrow> (outcome \<Rightarrow> bool) \<Rightarrow> bool"
where
  "one_execution w r q lib pages good =
     (\<forall>fuel n pre.
        (\<exists>oc. jq_execute w r q (Suc fuel) n pre = ([pre], Some oc) \<and> good oc) \<or>
        (\<exists>s. injected_script lib (pages n) pre (q_chain q) = Returned (JStr s) \<and>
             jq_execute w r q (Suc fuel) n pre =
               (pre # fst (jq_execute w r q fuel (Suc n)
                             (if s = ''needJquery'' then JqueryAndGetElementsInjection
                              else GetElementsInjection)),
                snd (jq_execute w r q fuel (Suc n)
                       (if s = ''needJquery'' then JqueryAndGetElementsInjection
                        else GetElementsInjection)))))"

text \<open>
  The outcome of the strategy when every execution that gets as far as
  \<^verbatim>\<open>___nwdJqGetElements\<close> has the result \<open>res\<close> there.
\<close>

definition final_outcome :: "query \<Rightarrow> script_result \<Rightarrow> outcome \<Rightarrow> bool" where
  "final_outcome q res oc =
     (case res of
        Returned j \<Rightarrow> oc = jq_elements q (unwrap (Some j))
      | ScriptThrew \<Rightarrow>
          (\<exists>err. oc = Callback (Some err) Undefined \<and> cls err \<noteq> NoSuchElementError))"

text \<open>
  What the callback of the \<open>n\<close>-th \<^verbatim>\<open>execute\<close> command of a resolution receives, and
  what that callback does with an answer that is not a string: it ends the resolution.
\<close>

definition execute_outcome :: "collab \<Rightarrow> remote \<Rightarrow> query \<Rightarrow> nat \<Rightarrow> injection \<Rightarrow> outcome" where
  "execute_outcome w r q n pre = cmd_callback w (jq_params r q pre) (execute_answer r n pre)"

definition jq_end :: "query \<Rightarrow> outcome \<Rightarrow> outcome" where
  "jq_end q answer =
     (case answer of
        Callback (Some err) _ \<Rightarrow> Callback (Some err) Undefined
      | Callback None result \<Rightarrow> jq_elements q result
      | other \<Rightarrow> other)"

subsection \<open>A stub browser, for concrete runs\<close>

text \<open>
  The stub server sends one of six bodies, which \<open>browser_collab\<close> parses: the two
  sentinels, an empty list, a list of one element reference, and two error statuses.
\<close>

definition browser_collab :: collab where
  "browser_collab =
     \<lparr>JSON_parse =
        (\<lambda>s. if s = ''needJquery'' \<or> s = ''needFunc''
             then Inr (JObj [(''status'', JNum 0), (''value'', JStr s)])
             else if s = ''[]'' then Inr (JObj [(''status'', JNum 0), (''value'', JArr [])])
             else if s = ''[7]''
             then Inr (JObj [(''status'', JNum 0),
                             (''value'', JArr [JObj [(''ELEMENT'', JStr ''7'')]])])
             else if s = ''error'' then Inr (JObj [(''status'', JNum 17)])
             else if s = ''no such element'' then Inr (JObj [(''status'', JNum 7)])
             else Inl ''Unexpected token''),
      getProtocolErrorContructor =
        (\<lambda>st. if st = JNum 7 then NoSuchElementError else StatusError 17)\<rparr>"

definition wire :: "script_result \<Rightarrow> transport" where
  "wire res =
     (case res of
        Returned (JStr s) \<Rightarrow> Responded [] s
      | Returned (JArr []) \<Rightarrow> Responded [] ''[]''
      | Returned _ \<Rightarrow> Responded [] ''[7]''
      | ScriptThrew \<Rightarrow> Responded [] ''error'')"

definition stub_remote ::
  "jq_lib \<Rightarrow> (nat \<Rightarrow> page) \<Rightarrow> (string \<times> json) list list option \<Rightarrow> remote"
where
  "stub_remote lib pages chain =
     \<lparr>find_answer = Responded [] ''error'',
      script_text = (\<lambda>pre. []),
      execute_answer = (\<lambda>n pre. wire (injected_script lib (pages n) pre chain))\<rparr>"

text \<open>
  A page that has the library but not the selection function, and is loaded anew (losing
  both) before the second execution; a page where the selector matches nothing; a library
  without methods.
\<close>

definition reloading_pages :: "nat \<Rightarrow> page" where
  "reloading_pages n =
     \<lparr>hasJquery = (n = 0), hasGetElements = False,
      selection = Some [JObj [(''ELEMENT'', JStr ''7'')]]\<rparr>"

definition empty_pages :: "nat \<Rightarrow> page" where
  "empty_pages n = \<lparr>hasJquery = False, hasGetElements = False, selection = Some []\<rparr>"

definition no_methods :: jq_lib where
  "no_methods name v = Falsy"

definition jquery_params :: sel_params where
  "jquery_params =
     \<lparr>sp_using = Some ''jquery'', sp_noError = False, sp_chain = None, sp_parent = None\<rparr>"

definition bogus_chain_params :: sel_params where
  "bogus_chain_params =
     \<lparr>sp_using = Some ''jquery'', sp_noError = False,
      sp_chain = Some [[(''bogus'', JStr ''x'')]], sp_parent = None\<rparr>"

definition found_pages :: "nat \<Rightarrow> page" where
  "found_pages n =
     \<lparr>hasJquery = True, hasGetElements = True,
      selection = Some [JObj [(''ELEMENT'', JStr ''7'')]]\<rparr>"

text \<open>A server that answers every \<^verbatim>\<open>execute\<close> command with the string \<^verbatim>\<open>needFunc\<close>.\<close>

definition stubborn_remote :: remote where
  "stubborn_remote =
     \<lparr>find_answer = Responded [] ''error'',
      script_text = (\<lambda>pre. []),
      execute_answer = (\<lambda>n pre. Responded [] ''needFunc'')\<rparr>"

text \<open>
  A library whose collections have \<^verbatim>\<open>attr\<close>, which returns a string that is not empty;
  of such a string \<^verbatim>\<open>charAt\<close> is a function, which returns the empty string for an index
  beyond its end. A chain of these two steps.
\<close>

definition attr_lib :: jq_lib where
  "attr_lib name v =
     (case v of
        Collection es \<Rightarrow>
          if name = ''attr'' then Method (\<lambda>args. Some (NonCollection True)) else Falsy
      | NonCollection lengthy \<Rightarrow>
          if name = ''charAt'' then Method (\<lambda>args. Some (NonCollection False)) else Falsy)"

definition attr_chain_params :: sel_params where
  "attr_chain_params =
     \<lparr>sp_using = Some ''jquery'', sp_noError = False,
      sp_chain = Some [[(''attr'', JStr ''id'')], [(''charAt'', JNum 99)]], sp_parent = None\<rparr>"

section \<open>The element methods mirrored on the driver\<close>

text \<open>
  An argument of \<^verbatim>\<open>driver.element[method]\<close> after the selector: a plain value, an object
  of selector parameters, or a function.

  Modelled from the spec: \<^verbatim>\<open>utils.isSelectorParams\<close> (\<^verbatim>\<open>lib/utils.js\<close>, not among the
  sources) tells whether the second argument is the object of selector parameters
  (\<^verbatim>\<open>using\<close>, \<^verbatim>\<open>noError\<close>, \<^verbatim>\<open>chain\<close>, \<^verbatim>\<open>parent\<close>) that \<^verbatim>\<open>get\<close> takes.
\<close>

datatype arg = Plain json | Params sel_params | CallbackFn

fun isSelectorParams :: "arg \<Rightarrow> bool" where
  "isSelectorParams (Params p) = True"
| "isSelectorParams _ = False"

text \<open>
  \<^verbatim>\<open>lib/webElement.js\<close> is not among the sources: the names of the methods of
  \<^verbatim>\<open>WebElement.prototype\<close> and what a method does with its arguments (what its callback
  receives, or that it throws) are parameters. \<^verbatim>\<open>element[method].apply(element, methodArgs)\<close>
  throws when \<^verbatim>\<open>element\<close> is no element handle.
\<close>

type_synonym element_methods = "string \<Rightarrow> jsval \<Rightarrow> arg list \<Rightarrow> outcome"

definition invoke :: "element_methods \<Rightarrow> string \<Rightarrow> jsval \<Rightarrow> arg list \<Rightarrow> outcome" where
  "invoke methods m element methodArgs =
     (case element of
        WebElement ident \<Rightarrow> methods m ident methodArgs
      | _ \<Rightarrow> Throws ''TypeError'')"

text \<open>
  The function \<^verbatim>\<open>_initElement\<close> stores as \<^verbatim>\<open>self.element[method]\<close>, applied to the
  arguments after the selector; \<open>getf\<close> is \<^verbatim>\<open>self.get\<close> for that selector. No function
  is stored for a name that starts with an underscore or that is no method of the element;
  under such a name \<^verbatim>\<open>self.element\<close>, an object literal, holds nothing to call, or a
  property it inherits, called with the first of these arguments as its second.
\<close>

definition element_delegate ::
  "string list \<Rightarrow> element_methods \<Rightarrow> (sel_params option \<Rightarrow> outcome option) \<Rightarrow> string \<Rightarrow>
   arg list \<Rightarrow> outcome option"
where
  "element_delegate names methods getf m args =
     (if m \<notin> set names \<or> take 1 m = ''_'' then
        Some (if m \<in> set object_prototype_keys
              then inherited_call m (case args of CallbackFn # rest \<Rightarrow> True | _ \<Rightarrow> False)
              else Throws ''TypeError'')
      else
        (let (getParams, methodArgs) =
               (case args of
                  Params p # rest \<Rightarrow> (Some p, rest)
                | _ \<Rightarrow> (None, args))
         in map_option
              (\<lambda>oc. case oc of
                 Callback (Some err) _ \<Rightarrow>
                   if methodArgs \<noteq> [] \<and> last methodArgs = CallbackFn
                   then Callback (Some err) Undefined
                   else Throws ''TypeError''
               | Callback None element \<Rightarrow> invoke methods m element methodArgs
               | other \<Rightarrow> other)
              (getf getParams)))"

text \<open>
  The spec's words for it: first \<^verbatim>\<open>get\<close> with the selector and the optional parameters;
  on a failure the callback receives that error; on success the element's method is called
  with the trailing arguments and the callback.
\<close>

definition get_then_method ::
  "element_methods \<Rightarrow> (sel_params option \<Rightarrow> outcome option) \<Rightarrow> string \<Rightarrow>
   sel_params option \<Rightarrow> arg list \<Rightarrow> outcome option"
where
  "get_then_method methods getf m params trailing =
     map_option
       (\<lambda>oc. case oc of
          Callback (Some err) _ \<Rightarrow> Callback (Some err) Undefined
        | Callback None element \<Rightarrow> invoke methods m element (trailing @ [CallbackFn])
        | other \<Rightarrow> other)
       (getf params)"

text \<open>A method that reports how many arguments it was called with, for concrete runs.\<close>

definition counting_methods :: element_methods where
  "counting_methods m ident methodArgs = Callback None (Json (JNum (int (length methodArgs))))"

section \<open>Properties of the dispatcher\<close>

lemma unwrap_value: "v \<noteq> JNull \<Longrightarrow> v \<noteq> JObj [] \<Longrightarrow> unwrap (Some v) = Json v"
  by (cases v) (simp_all add: unwrap_def)

lemma unwrap_self: "v = None \<or> v = Some JNull \<or> v = Some (JObj []) \<Longrightarrow> unwrap v = DriverSelf"
  by (auto simp: unwrap_def)

lemma cmd_callback_status0:
  assumes "JSON_parse w (response_text body) = Inr (JObj env)"
    and "map_of env ''status'' = Some (JNum 0)"
  shows "cmd_callback w params (Responded hs body) =
    Callback None (if resNeeded params then RawResponse hs (JObj env)
                   else unwrap (map_of env ''value''))"
  using assms by (simp add: cmd_callback_def)

text \<open>
  C1. A command whose response envelope has status 0: when the descriptor asks for the raw
  envelope, the response object itself is returned; otherwise the \<^verbatim>\<open>value\<close> field is
  returned when it is present, not null, and an array, a non-object or a non-empty plain
  object, and the driver itself is returned when \<^verbatim>\<open>value\<close> is absent, null or an empty
  plain object.
\<close>

theorem cmd_result_unwrapping:
  assumes "JSON_parse w (response_text body) = Inr (JObj env)"
    and "map_of env ''status'' = Some (JNum 0)"
  shows
    "(resNeeded params \<longrightarrow>
        cmd_callback w params (Responded hs body) =
          Callback None (RawResponse hs (JObj env))) \<and>
     (\<not> resNeeded params \<longrightarrow>
        (\<forall>v. map_of env ''value'' = Some v \<and> v \<noteq> JNull \<and>
              ((\<exists>xs. v = JArr xs) \<or> (\<forall>kvs. v \<noteq> JObj kvs) \<or> (\<exists>kv kvs. v = JObj (kv # kvs))) \<longrightarrow>
            cmd_callback w params (Responded hs body) = Callback None (Json v)) \<and>
        (map_of env ''value'' = None \<or> map_of env ''value'' = Some JNull \<or>
         map_of env ''value'' = Some (JObj []) \<longrightarrow>
            cmd_callback w params (Responded hs body) = Callback None DriverSelf))"
proof -
  have eq: "cmd_callback w params (Responded hs body) =
      Callback None (if resNeeded params then RawResponse hs (JObj env)
                     else unwrap (map_of env ''value''))"
    using assms by (rule cmd_callback_status0)
  have raw: "resNeeded params \<Longrightarrow>
      cmd_callback w params (Responded hs body) =
        Callback None (RawResponse hs (JObj env))"
    by (simp add: eq)
  have val: "cmd_callback w params (Responded hs body) = Callback None (Json v)"
    if "\<not> resNeeded params" "map_of env ''value'' = Some v" "v \<noteq> JNull"
       "(\<exists>xs. v = JArr xs) \<or> (\<forall>kvs. v \<noteq> JObj kvs) \<or> (\<exists>kv kvs. v = JObj (kv # kvs))" for v
  proof -
    from that(4) have "v \<noteq> JObj []" by auto
    with that show ?thesis by (simp add: eq unwrap_value)
  qed
  have self: "cmd_callback w params (Responded hs body) = Callback None DriverSelf"
    if "\<not> resNeeded params"
       "map_of env ''value'' = None \<or> map_of env ''value'' = Some JNull \<or>
        map_of env ''value'' = Some (JObj [])"
    using that by (simp add: eq unwrap_self)
  from raw val self show ?thesis by blast
qed

theorem cmd_result_unwrapping_witness:
  "cmd_callback
     \<lparr>JSON_parse = (\<lambda>_. Inr (JObj [(''status'', JNum 0), (''value'', JArr [])])),
      getProtocolErrorContructor = (\<lambda>_. NativeError)\<rparr>
     \<lparr>cpath = ''/elements'', cmethod = Some ''POST'', cdata = None, resNeeded = False\<rparr>
     (Responded [] ''x'') = Callback None (Json (JArr [])) \<and>
   cmd_callback
     \<lparr>JSON_parse = (\<lambda>_. Inr (JObj [(''status'', JNum 0), (''value'', JObj [])])),
      getProtocolErrorContructor = (\<lambda>_. NativeError)\<rparr>
     \<lparr>cpath = ''/back'', cmethod = Some ''POST'', cdata = None, resNeeded = False\<rparr>
     (Responded [] ''x'') = Callback None DriverSelf"
  using
    cmd_result_unwrapping [where w = "\<lparr>JSON_parse = (\<lambda>_. Inr (JObj [(''status'', JNum 0), (''value'', JArr [])])),
      getProtocolErrorContructor = (\<lambda>_. NativeError)\<rparr>" and body = "''x''"
      and env = "[(''status'', JNum 0), (''value'', JArr [])]" and hs = "[]"
      and params = "\<lparr>cpath = ''/elements'', cmethod = Some ''POST'', cdata = None, resNeeded = False\<rparr>"]
    cmd_result_unwrapping [where w = "\<lparr>JSON_parse = (\<lambda>_. Inr (JObj [(''status'', JNum 0), (''value'', JObj [])])),
      getProtocolErrorContructor = (\<lambda>_. NativeError)\<rparr>" and body = "''x''"
      and env = "[(''status'', JNum 0), (''value'', JObj [])]" and hs = "[]"
      and params = "\<lparr>cpath = ''/back'', cmethod = Some ''POST'', cdata = None, resNeeded = False\<rparr>"]
  by simp

section \<open>Properties of the session start and of the timeouts\<close>

lemma setTimeout_keeps_session:
  "sessionBasePath (after (setTimeout w d type timeout tr)) = sessionBasePath d \<and>
   sessionId (after (setTimeout w d type timeout tr)) = sessionId d"
  by (simp add: setTimeout_def split: outcome.splits option.splits)

lemma setTimeouts_from_keeps_session:
  "sessionBasePath (after (setTimeouts_from w reply count tbl current d)) = sessionBasePath d \<and>
   sessionId (after (setTimeouts_from w reply count tbl current d)) = sessionId d"
proof (induction tbl arbitrary: current d)
  case Nil
  show ?case by simp
next
  case (Cons entry rest)
  show ?case
    by (simp add: Let_def Cons.IH setTimeout_keeps_session split: prod.splits)
qed

lemma init_first_request:
  "take 1 (issued (init w d tr reply)) = [cmd_request d (init_params d)]"
  by (simp add: init_def Let_def split: outcome.splits option.splits jsval.splits)

lemma init_answered:
  assumes "JSON_parse w (response_text body) = Inr dat"
    and "dat \<noteq> JNull"
    and "\<not> (truthy dat \<and> truthy_opt (get_prop dat ''status''))"
  shows "cmd_callback w (init_params d) (Responded hs body) = Callback None (RawResponse hs dat)"
  using assms
  by (auto simp: cmd_callback_def init_params_def truthy_opt_def split: option.splits)

lemma init_with_session:
  assumes "cmd_callback w (init_params d) tr = Callback None (RawResponse hs dat)"
    and "session_id hs dat = Some sid"
  shows "sessionId (after (init w d tr reply)) = Some sid \<and>
         sessionBasePath (after (init w d tr reply)) = sessionBasePath d @ ''/'' @ js_to_string sid"
  using assms by (simp add: init_def Let_def setTimeouts_def setTimeouts_from_keeps_session)

lemma init_without_session:
  assumes "cmd_callback w (init_params d) tr = Callback None (RawResponse hs dat)"
    and "session_id hs dat = None"
  shows "calls (init w d tr reply) =
           [Callback (Some (new_error NativeError ''Can`t determine session id'' [])) Undefined] \<and>
         after (init w d tr reply) = d"
  using assms by (simp add: init_def)

text \<open>
  C7 (as amended). For a freshly constructed driver, \<^verbatim>\<open>init\<close> first issues a request to
  \<^verbatim>\<open>/wd/hub/session\<close> carrying \<^verbatim>\<open>{desiredCapabilities}\<close>, with the driver's default
  method: \<^verbatim>\<open>POST\<close> unless the constructor was given a \<^verbatim>\<open>method\<close> option. On a
  successful answer the session id is the body's \<^verbatim>\<open>sessionId\<close> when that is truthy, else
  the last path segment of a non-empty \<^verbatim>\<open>location\<close> header; with neither, the callback
  gets an error and the driver is unchanged. Once a session id is set, the path of every
  later command starts with \<^verbatim>\<open>/wd/hub/session/<sessionId>\<close>.
\<close>

theorem init_establishes_session:
  assumes "d = WebDriver opts"
    and "JSON_parse w (response_text body) = Inr dat"
    and "dat \<noteq> JNull"
    and "\<not> (truthy dat \<and> truthy_opt (get_prop dat ''status''))"
    and "d' = after (init w d (Responded hs body) reply)"
  shows
    "take 1 (issued (init w d (Responded hs body) reply)) =
       [\<lparr>req_host = host d, req_port = port d, req_path = ''/wd/hub/session'',
         req_method = or_default (opt_method opts) ''POST'',
         req_data = Some (JObj [(''desiredCapabilities'', JObj (desiredCapabilities d))])\<rparr>] \<and>
     (\<forall>s. get_prop dat ''sessionId'' = Some s \<and> truthy s \<longrightarrow> sessionId d' = Some s) \<and>
     (\<forall>loc. \<not> truthy_opt (get_prop dat ''sessionId'') \<and> map_of hs ''location'' = Some loc \<and>
            loc \<noteq> [] \<longrightarrow>
        sessionId d' = Some (JStr (last (split_on CHR ''/'' loc)))) \<and>
     (\<not> truthy_opt (get_prop dat ''sessionId'') \<and>
      (map_of hs ''location'' = None \<or> map_of hs ''location'' = Some []) \<longrightarrow>
        calls (init w d (Responded hs body) reply) =
          [Callback (Some (new_error NativeError ''Can`t determine session id'' [])) Undefined] \<and>
        d' = d) \<and>
     (\<forall>sid. sessionId d' = Some sid \<longrightarrow>
        (\<forall>p. req_path (cmd_request d' p) = ''/wd/hub/session/'' @ js_to_string sid @ cpath p))"
proof -
  let ?tr = "Responded hs body"
  have ans: "cmd_callback w (init_params d) ?tr = Callback None (RawResponse hs dat)"
    using assms(2-4) by (rule init_answered)
  have fresh: "sessionBasePath d = ''/wd/hub/session''" "sessionId d = None"
    by (simp_all add: assms(1) WebDriver_def)
  have meth: "default_method d = or_default (opt_method opts) ''POST''"
    by (simp add: assms(1) WebDriver_def)
  have first: "take 1 (issued (init w d ?tr reply)) =
       [\<lparr>req_host = host d, req_port = port d, req_path = ''/wd/hub/session'',
         req_method = or_default (opt_method opts) ''POST'',
         req_data = Some (JObj [(''desiredCapabilities'', JObj (desiredCapabilities d))])\<rparr>]"
    unfolding init_first_request
    by (simp add: cmd_request_def init_params_def fresh meth or_default_def)
  have body_id: "sessionId d' = Some s" if "get_prop dat ''sessionId'' = Some s" "truthy s" for s
  proof -
    from that have "session_id hs dat = Some s" by (simp add: session_id_def truthy_opt_def)
    with ans show ?thesis by (simp add: assms(5) init_with_session)
  qed
  have header_id: "sessionId d' = Some (JStr (last (split_on CHR ''/'' loc)))"
    if "\<not> truthy_opt (get_prop dat ''sessionId'')" "map_of hs ''location'' = Some loc" "loc \<noteq> []"
    for loc
  proof -
    from that have "session_id hs dat = Some (JStr (last (split_on CHR ''/'' loc)))"
      by (simp add: session_id_def)
    with ans show ?thesis by (simp add: assms(5) init_with_session)
  qed
  have neither: "calls (init w d ?tr reply) =
          [Callback (Some (new_error NativeError ''Can`t determine session id'' [])) Undefined] \<and>
        d' = d"
    if "\<not> truthy_opt (get_prop dat ''sessionId'')"
       "map_of hs ''location'' = None \<or> map_of hs ''location'' = Some []"
  proof -
    from that have "session_id hs dat = None" by (auto simp: session_id_def)
    with ans show ?thesis by (simp add: assms(5) init_without_session)
  qed
  have prefix: "req_path (cmd_request d' p) = ''/wd/hub/session/'' @ js_to_string sid @ cpath p"
    if "sessionId d' = Some sid" for sid p
  proof (cases "session_id hs dat")
    case None
    with ans have "d' = d" by (simp add: assms(5) init_without_session)
    with that fresh show ?thesis by simp
  next
    case (Some sid')
    with ans have "sessionId d' = Some sid'"
      and "sessionBasePath d' = sessionBasePath d @ ''/'' @ js_to_string sid'"
      by (simp_all add: assms(5) init_with_session)
    with that fresh show ?thesis by (simp add: cmd_request_def)
  qed
  from first body_id header_id neither prefix show ?thesis by blast
qed

theorem init_establishes_session_witness:
  "sessionId (after (init stub_collab (WebDriver no_options)
      (Responded [(''location'', ''http://127.0.0.1:4444/wd/hub/session/abc123'')] [])
      (\<lambda>type. Responded [] []))) = Some (JStr ''abc123'') \<and>
   req_path (cmd_request (after (init stub_collab (WebDriver no_options)
      (Responded [(''location'', ''http://127.0.0.1:4444/wd/hub/session/abc123'')] [])
      (\<lambda>type. Responded [] [])))
      \<lparr>cpath = ''/url'', cmethod = Some ''GET'', cdata = None, resNeeded = False\<rparr>) =
     ''/wd/hub/session/abc123/url''"
proof -
  have p: "JSON_parse stub_collab (response_text []) = Inr (JObj [])"
    by (simp add: stub_collab_def response_text_def)
  have s: "\<not> (truthy (JObj []) \<and> truthy_opt (get_prop (JObj []) ''status''))"
    by (simp add: truthy_opt_def)
  note t = init_establishes_session [OF refl p _ s refl,
    where opts = no_options
      and hs = "[(''location'', ''http://127.0.0.1:4444/wd/hub/session/abc123'')]"
      and reply = "\<lambda>type. Responded [] []"]
  from t show ?thesis by (simp add: truthy_opt_def)
qed

text \<open>
  C7 as stated fails: a driver constructed with \<^verbatim>\<open>{method: 'GET'}\<close> starts its session
  with a \<^verbatim>\<open>GET\<close>, since \<^verbatim>\<open>init\<close> names no method of its own.
\<close>

theorem init_method_counterexample:
  "map req_method (take 1 (issued (init stub_collab
      (WebDriver (no_options\<lparr>opt_method := Some ''GET''\<rparr>))
      (Responded [(''location'', ''http://127.0.0.1:4444/wd/hub/session/abc123'')] [])
      (\<lambda>type. Responded [] [])))) = [''GET'']"
  unfolding init_first_request
  by (simp add: cmd_request_def init_params_def WebDriver_def no_options_def or_default_def)

text \<open>
  C10. The claim: for a timeout category outside \<^verbatim>\<open>page load\<close>, \<^verbatim>\<open>script\<close>,
  \<^verbatim>\<open>implicit\<close>, \<^verbatim>\<open>setTimeout\<close> issues no command. The code tests the category with
  \<^verbatim>\<open>type in this._protocolTimeoutsHash\<close>, which also holds for the names the table
  inherits: for the category \<^verbatim>\<open>constructor\<close> a \<^verbatim>\<open>/timeouts\<close> command is sent.
\<close>

theorem setTimeout_inherited_key_issues_command:
  "map req_path (issued (setTimeout w (WebDriver opts) ''constructor'' 100 tr)) =
     [''/wd/hub/session/timeouts''] \<and>
   map req_data (issued (setTimeout w (WebDriver opts) ''constructor'' 100 tr)) =
     [Some (JObj [(''type'', JStr ''constructor''), (''ms'', JNum 100)])]"
  by (simp add: setTimeout_def js_in_def object_prototype_keys_def cmd_request_def
      timeouts_params_def WebDriver_def split: outcome.splits option.splits)

section \<open>The polling engine reports a timeout more than once\<close>

text \<open>
  C2. The claim: the callback of \<^verbatim>\<open>waitFor\<close> is called exactly once. The code arms a
  deadline timer in every \<^verbatim>\<open>execute\<close>, and a deadline timer only asks whether
  \<^verbatim>\<open>isDone\<close> is false. With \<^verbatim>\<open>waitFor(function(waitcb) { waitcb(false); }, {timeout: 50}, callback)\<close>
  the polls at 20 and 40 ms each arm another deadline, and the three deadlines (at 50, 70 and
  90 ms) each call the callback with the timeout error.
\<close>

theorem waitFor_repeats_timeout_callback:
  "waitFor 10 (WebDriver no_options) (\<lambda>n. Some (0, False))
     \<lparr>wp_timeout = Some 50, wp_noError = False, wp_errorMessage = None\<rparr> =
   \<lparr>pending = [], isDone = False, isTimeoutExceeded = True, invoked = 3,
    reported =
      [Callback (Some (new_error NativeError ''Timeout (50 ms) exceeded'' [])) Undefined,
       Callback (Some (new_error NativeError ''Timeout (50 ms) exceeded'' [])) Undefined,
       Callback (Some (new_error NativeError ''Timeout (50 ms) exceeded'' [])) Undefined]\<rparr>"
  by code_simp

section \<open>Properties of the wait for a change of the URL\<close>

lemma strip_query_no_mark: "CHR ''?'' \<notin> set s \<Longrightarrow> strip_query s = s"
  by (induction s) auto




section \<open>Properties of the script strategy\<close>

lemma nwdJqGetElements_array:
  "nwdJqGetElements lib pg chain = Returned j \<Longrightarrow> \<exists>elements. j = JArr elements"
  by (auto simp: nwdJqGetElements_def split: option.splits jqval.splits if_splits)

lemma sentinel_cases:
  assumes "injected_script lib pg pre chain = Returned (JStr s)"
  shows "(s = ''needJquery'' \<and> pre \<noteq> JqueryAndGetElementsInjection) \<or>
         (s = ''needFunc'' \<and> pre = NoInjection)"
  using assms nwdJqGetElements_array [of lib pg chain "JStr s"]
  by (auto simp: injected_script_def split: if_splits)

lemma unwrap_string: "unwrap (Some j) = Json (JStr s) \<longleftrightarrow> j = JStr s"
  by (cases j) (auto simp: unwrap_def)

lemma jq_execute_both:
  assumes "one_execution w r q lib pages good"
  shows "\<exists>oc. jq_execute w r q (Suc fuel) n JqueryAndGetElementsInjection =
           ([JqueryAndGetElementsInjection], Some oc) \<and> good oc"
proof -
  from assms have
    "(\<exists>oc. jq_execute w r q (Suc fuel) n JqueryAndGetElementsInjection =
         ([JqueryAndGetElementsInjection], Some oc) \<and> good oc) \<or>
     (\<exists>s. injected_script lib (pages n) JqueryAndGetElementsInjection (q_chain q) =
         Returned (JStr s))"
    unfolding one_execution_def by blast
  then show ?thesis by (auto dest: sentinel_cases)
qed

lemma jq_execute_func:
  assumes "one_execution w r q lib pages good"
  shows "\<exists>trace oc. jq_execute w r q (Suc (Suc fuel)) n GetElementsInjection = (trace, Some oc) \<and>
           good oc \<and>
           trace \<in> {[GetElementsInjection],
                     [GetElementsInjection, JqueryAndGetElementsInjection]}"
proof -
  from assms have
    "(\<exists>oc. jq_execute w r q (Suc (Suc fuel)) n GetElementsInjection =
         ([GetElementsInjection], Some oc) \<and> good oc) \<or>
     (\<exists>s. injected_script lib (pages n) GetElementsInjection (q_chain q) = Returned (JStr s) \<and>
          jq_execute w r q (Suc (Suc fuel)) n GetElementsInjection =
            (GetElementsInjection # fst (jq_execute w r q (Suc fuel) (Suc n)
                          (if s = ''needJquery'' then JqueryAndGetElementsInjection
                           else GetElementsInjection)),
             snd (jq_execute w r q (Suc fuel) (Suc n)
                    (if s = ''needJquery'' then JqueryAndGetElementsInjection
                     else GetElementsInjection))))"
    unfolding one_execution_def by blast
  then show ?thesis
  proof (elim disjE exE conjE)
    fix oc assume "jq_execute w r q (Suc (Suc fuel)) n GetElementsInjection =
        ([GetElementsInjection], Some oc)" "good oc"
    then show ?thesis by simp
  next
    fix s
    assume s: "injected_script lib (pages n) GetElementsInjection (q_chain q) = Returned (JStr s)"
      and e: "jq_execute w r q (Suc (Suc fuel)) n GetElementsInjection =
        (GetElementsInjection # fst (jq_execute w r q (Suc fuel) (Suc n)
                      (if s = ''needJquery'' then JqueryAndGetElementsInjection
                       else GetElementsInjection)),
         snd (jq_execute w r q (Suc fuel) (Suc n)
                (if s = ''needJquery'' then JqueryAndGetElementsInjection
                 else GetElementsInjection)))"
    from sentinel_cases [OF s] have "s = ''needJquery''" by auto
    with e jq_execute_both [OF assms, of fuel "Suc n"] show ?thesis by auto
  qed
qed

lemma jq_execute_none:
  assumes "one_execution w r q lib pages good"
  shows "\<exists>trace oc. jq_execute w r q (Suc (Suc (Suc fuel))) n NoInjection = (trace, Some oc) \<and>
           good oc \<and>
           trace \<in> {[NoInjection],
                     [NoInjection, JqueryAndGetElementsInjection],
                     [NoInjection, GetElementsInjection],
                     [NoInjection, GetElementsInjection, JqueryAndGetElementsInjection]}"
proof -
  from assms have
    "(\<exists>oc. jq_execute w r q (Suc (Suc (Suc fuel))) n NoInjection = ([NoInjection], Some oc) \<and>
          good oc) \<or>
     (\<exists>s. injected_script lib (pages n) NoInjection (q_chain q) = Returned (JStr s) \<and>
          jq_execute w r q (Suc (Suc (Suc fuel))) n NoInjection =
            (NoInjection # fst (jq_execute w r q (Suc (Suc fuel)) (Suc n)
                          (if s = ''needJquery'' then JqueryAndGetElementsInjection
                           else GetElementsInjection)),
             snd (jq_execute w r q (Suc (Suc fuel)) (Suc n)
                    (if s = ''needJquery'' then JqueryAndGetElementsInjection
                     else GetElementsInjection))))"
    unfolding one_execution_def by blast
  then show ?thesis
  proof (elim disjE exE conjE)
    fix oc
    assume "jq_execute w r q (Suc (Suc (Suc fuel))) n NoInjection = ([NoInjection], Some oc)"
      "good oc"
    then show ?thesis by simp
  next
    fix s
    assume s: "injected_script lib (pages n) NoInjection (q_chain q) = Returned (JStr s)"
      and e: "jq_execute w r q (Suc (Suc (Suc fuel))) n NoInjection =
        (NoInjection # fst (jq_execute w r q (Suc (Suc fuel)) (Suc n)
                      (if s = ''needJquery'' then JqueryAndGetElementsInjection
                       else GetElementsInjection)),
         snd (jq_execute w r q (Suc (Suc fuel)) (Suc n)
                (if s = ''needJquery'' then JqueryAndGetElementsInjection
                 else GetElementsInjection)))"
    from sentinel_cases [OF s] consider "s = ''needJquery''" | "s = ''needFunc''" by auto
    then show ?thesis
    proof cases
      case 1
      with e jq_execute_both [OF assms, of "Suc fuel" "Suc n"] show ?thesis by auto
    next
      case 2
      with e jq_execute_func [OF assms, of fuel "Suc n"] show ?thesis by auto
    qed
  qed
qed

text \<open>Once the resolution has ended, more fuel changes nothing.\<close>

lemma jq_execute_more_fuel:
  "jq_execute w r q fuel n pre = (trace, Some oc) \<Longrightarrow>
   jq_execute w r q (fuel + k) n pre = (trace, Some oc)"
proof (induction fuel arbitrary: n pre trace)
  case 0
  then show ?case by simp
next
  case (Suc fuel)
  show ?case
  proof (cases "cmd_callback w (jq_params r q pre) (execute_answer r n pre)")
    case (Callback err v)
    show ?thesis
    proof (cases "err = None \<and> (\<exists>s. v = Json (JStr s))")
      case True
      then obtain s where v: "err = None" "v = Json (JStr s)" by blast
      let ?next = "if s = ''needJquery'' then JqueryAndGetElementsInjection
                   else GetElementsInjection"
      from Suc.prems Callback v
      have "jq_execute w r q fuel (Suc n) ?next = (tl trace, Some oc)" "trace = pre # tl trace"
        by (auto split: prod.splits)
      with Suc.IH [of "Suc n" ?next "tl trace"] Callback v show ?thesis
        by (auto split: prod.splits)
    next
      case False
      with Suc.prems Callback show ?thesis
        by (auto split: option.splits jsval.splits json.splits)
    qed
  next
    case (Throws m)
    with Suc.prems have "trace = [pre]" "oc = Throws m" by simp_all
    with Throws show ?thesis by simp
  next
    case NeverCalled
    with Suc.prems have "trace = [pre]" "oc = NeverCalled" by simp_all
    with NeverCalled show ?thesis by simp
  qed
qed

lemma jqueryGetElementIds_ends:
  assumes "one_execution w r q lib pages good"
  shows "\<exists>trace oc. (\<forall>k. jqueryGetElementIds w r q (3 + k) = (trace, Some oc)) \<and>
           good oc \<and>
           trace \<in> {[NoInjection],
                     [NoInjection, JqueryAndGetElementsInjection],
                     [NoInjection, GetElementsInjection],
                     [NoInjection, GetElementsInjection, JqueryAndGetElementsInjection]}"
proof -
  from jq_execute_none [OF assms, of 0 0] obtain trace oc
    where e: "jq_execute w r q 3 0 NoInjection = (trace, Some oc)" and g: "good oc"
      and t: "trace \<in> {[NoInjection],
                     [NoInjection, JqueryAndGetElementsInjection],
                     [NoInjection, GetElementsInjection],
                     [NoInjection, GetElementsInjection, JqueryAndGetElementsInjection]}"
    by (auto simp: numeral_3_eq_3)
  from jq_execute_more_fuel [OF e]
  have "\<forall>k. jqueryGetElementIds w r q (3 + k) = (trace, Some oc)"
    by (simp add: jqueryGetElementIds_def)
  with g t show ?thesis by blast
qed

text \<open>An execution under the weak reading of the browser.\<close>

lemma one_execution_weak:
  assumes "script_or_failure w r q lib pages"
  shows "one_execution w r q lib pages (\<lambda>oc. True)"
  unfolding one_execution_def
proof (intro allI)
  fix fuel n pre
  let ?next = "\<lambda>s. if s = ''needJquery'' then JqueryAndGetElementsInjection
                    else GetElementsInjection"
  show "(\<exists>oc. jq_execute w r q (Suc fuel) n pre = ([pre], Some oc) \<and> True) \<or>
        (\<exists>s. injected_script lib (pages n) pre (q_chain q) = Returned (JStr s) \<and>
             jq_execute w r q (Suc fuel) n pre =
               (pre # fst (jq_execute w r q fuel (Suc n) (?next s)),
                snd (jq_execute w r q fuel (Suc n) (?next s))))"
  proof (cases "cmd_callback w (jq_params r q pre) (execute_answer r n pre)")
    case (Callback err v)
    show ?thesis
    proof (cases err)
      case (Some e)
      with Callback show ?thesis by simp
    next
      case None
      with Callback assms obtain j
        where j: "injected_script lib (pages n) pre (q_chain q) = Returned j"
          "v = unwrap (Some j)"
        unfolding script_or_failure_def by blast
      show ?thesis
      proof (cases "\<exists>s. j = JStr s")
        case True
        then obtain s where "j = JStr s" by blast
        with j Callback None show ?thesis
          by (simp add: unwrap_value split: prod.splits)
      next
        case False
        then have "\<And>s. v \<noteq> Json (JStr s)" using j(2) by (simp add: unwrap_string)
        with Callback None show ?thesis
          by (auto split: jsval.splits json.splits)
      qed
    qed
  next
    case (Throws m)
    then show ?thesis by simp
  next
    case NeverCalled
    then show ?thesis by simp
  qed
qed

lemma jq_execute_end:
  assumes "\<forall>s. execute_outcome w r q n pre \<noteq> Callback None (Json (JStr s))"
  shows "jq_execute w r q (Suc fuel) n pre = ([pre], Some (jq_end q (execute_outcome w r q n pre)))"
proof (cases "execute_outcome w r q n pre")
  case (Callback err v)
  show ?thesis
  proof (cases err)
    case (Some e)
    with Callback show ?thesis by (simp add: execute_outcome_def jq_end_def)
  next
    case None
    with Callback assms have "\<And>s. v \<noteq> Json (JStr s)" by auto
    with Callback None show ?thesis
      by (auto simp: execute_outcome_def jq_end_def split: jsval.splits json.splits)
  qed
next
  case (Throws m)
  then show ?thesis by (simp add: execute_outcome_def jq_end_def)
next
  case NeverCalled
  then show ?thesis by (simp add: execute_outcome_def jq_end_def)
qed

lemma jq_execute_again:
  assumes "execute_outcome w r q n pre = Callback None (Json (JStr s))"
  shows "jq_execute w r q (Suc fuel) n pre =
           (pre # fst (jq_execute w r q fuel (Suc n)
                         (if s = ''needJquery'' then JqueryAndGetElementsInjection
                          else GetElementsInjection)),
            snd (jq_execute w r q fuel (Suc n)
                   (if s = ''needJquery'' then JqueryAndGetElementsInjection
                    else GetElementsInjection)))"
  using assms by (simp add: execute_outcome_def split: prod.splits)

lemma answered_string:
  assumes "script_or_failure w r q lib pages"
    and "execute_outcome w r q n pre = Callback None (Json (JStr s))"
  shows "injected_script lib (pages n) pre (q_chain q) = Returned (JStr s)"
proof -
  from assms obtain j
    where j: "injected_script lib (pages n) pre (q_chain q) = Returned j"
      "Json (JStr s) = unwrap (Some j)"
    unfolding script_or_failure_def execute_outcome_def by blast
  from j(2) have "j = JStr s" using unwrap_string [of j s] by simp
  with j(1) show ?thesis by simp
qed

text \<open>
  C4 (as amended). The client sets no bound on the re-executions; the bound comes from the
  script. Whenever a successful \<^verbatim>\<open>execute\<close> command delivers what the script of the source
  returned (in whatever state each execution finds the page, and whichever commands fail):
  a first answer that is no string ends the resolution after one execution; the sentinel
  \<^verbatim>\<open>needJquery\<close> causes one re-execution with both pieces prepended, which ends it; the
  sentinel \<^verbatim>\<open>needFunc\<close> causes a re-execution with the selection function prepended, which
  ends it unless it answers with a second sentinel, and that causes a third execution with
  both pieces prepended, which ends it. No other case arises, so the script is executed at
  most three times, and allowing more executions changes nothing.
\<close>

theorem jquery_bootstrap_bounded:
  assumes "script_or_failure w r q lib pages"
  shows
    "((\<forall>s. execute_outcome w r q 0 NoInjection \<noteq> Callback None (Json (JStr s))) \<longrightarrow>
        jqueryGetElementIds w r q (3 + k) =
          ([NoInjection], Some (jq_end q (execute_outcome w r q 0 NoInjection)))) \<and>
     (execute_outcome w r q 0 NoInjection = Callback None (Json (JStr ''needJquery'')) \<longrightarrow>
        jqueryGetElementIds w r q (3 + k) =
          ([NoInjection, JqueryAndGetElementsInjection],
           Some (jq_end q (execute_outcome w r q 1 JqueryAndGetElementsInjection)))) \<and>
     (execute_outcome w r q 0 NoInjection = Callback None (Json (JStr ''needFunc'')) \<and>
      (\<forall>s. execute_outcome w r q 1 GetElementsInjection \<noteq> Callback None (Json (JStr s))) \<longrightarrow>
        jqueryGetElementIds w r q (3 + k) =
          ([NoInjection, GetElementsInjection],
           Some (jq_end q (execute_outcome w r q 1 GetElementsInjection)))) \<and>
     (execute_outcome w r q 0 NoInjection = Callback None (Json (JStr ''needFunc'')) \<and>
      execute_outcome w r q 1 GetElementsInjection = Callback None (Json (JStr ''needJquery'')) \<longrightarrow>
        jqueryGetElementIds w r q (3 + k) =
          ([NoInjection, GetElementsInjection, JqueryAndGetElementsInjection],
           Some (jq_end q (execute_outcome w r q 2 JqueryAndGetElementsInjection)))) \<and>
     (\<forall>s. execute_outcome w r q 0 NoInjection = Callback None (Json (JStr s)) \<longrightarrow>
          s = ''needJquery'' \<or> s = ''needFunc'') \<and>
     (\<forall>n s. execute_outcome w r q n GetElementsInjection = Callback None (Json (JStr s)) \<longrightarrow>
          s = ''needJquery'') \<and>
     (\<forall>n s. execute_outcome w r q n JqueryAndGetElementsInjection \<noteq> Callback None (Json (JStr s))) \<and>
     length (fst (jqueryGetElementIds w r q (3 + k))) \<le> 3"
proof -
  let ?a = "execute_outcome w r q"
  let ?run = "jqueryGetElementIds w r q (3 + k)"
  have fuel: "?run = jq_execute w r q (Suc (Suc (Suc k))) 0 NoInjection"
    by (simp add: jqueryGetElementIds_def numeral_3_eq_3)
  have both: "?a n JqueryAndGetElementsInjection \<noteq> Callback None (Json (JStr s))" for n s
    using answered_string [OF assms, of n JqueryAndGetElementsInjection s]
    by (auto dest: sentinel_cases)
  have func: "s = ''needJquery''" if "?a n GetElementsInjection = Callback None (Json (JStr s))"
    for n s
    using answered_string [OF assms that] by (auto dest: sentinel_cases)
  have bare: "s = ''needJquery'' \<or> s = ''needFunc''"
    if "?a 0 NoInjection = Callback None (Json (JStr s))" for s
    using answered_string [OF assms that] by (auto dest: sentinel_cases)
  have end_both: "jq_execute w r q (Suc fuel) n JqueryAndGetElementsInjection =
      ([JqueryAndGetElementsInjection], Some (jq_end q (?a n JqueryAndGetElementsInjection)))"
    for fuel n
    by (rule jq_execute_end) (simp add: both)
  have c1: "?run = ([NoInjection], Some (jq_end q (?a 0 NoInjection)))"
    if "\<forall>s. ?a 0 NoInjection \<noteq> Callback None (Json (JStr s))"
    unfolding fuel using that by (rule jq_execute_end)
  have c2: "?run = ([NoInjection, JqueryAndGetElementsInjection],
           Some (jq_end q (?a 1 JqueryAndGetElementsInjection)))"
    if "?a 0 NoInjection = Callback None (Json (JStr ''needJquery''))"
    unfolding fuel by (simp del: jq_execute.simps add: jq_execute_again [OF that] end_both)
  have c3: "?run = ([NoInjection, GetElementsInjection],
           Some (jq_end q (?a 1 GetElementsInjection)))"
    if "?a 0 NoInjection = Callback None (Json (JStr ''needFunc''))"
      "\<forall>s. ?a 1 GetElementsInjection \<noteq> Callback None (Json (JStr s))"
  proof -
    have "jq_execute w r q (Suc (Suc k)) (Suc 0) GetElementsInjection =
        ([GetElementsInjection], Some (jq_end q (?a (Suc 0) GetElementsInjection)))"
      by (rule jq_execute_end) (use that(2) in simp)
    then show ?thesis
      unfolding fuel by (simp del: jq_execute.simps add: jq_execute_again [OF that(1)])
  qed
  have c4: "?run = ([NoInjection, GetElementsInjection, JqueryAndGetElementsInjection],
           Some (jq_end q (?a 2 JqueryAndGetElementsInjection)))"
    if "?a 0 NoInjection = Callback None (Json (JStr ''needFunc''))"
      "?a 1 GetElementsInjection = Callback None (Json (JStr ''needJquery''))"
  proof -
    from that(2) have "?a (Suc 0) GetElementsInjection = Callback None (Json (JStr ''needJquery''))"
      by simp
    from jq_execute_again [OF this, of "Suc k"]
    have "jq_execute w r q (Suc (Suc k)) (Suc 0) GetElementsInjection =
        ([GetElementsInjection, JqueryAndGetElementsInjection],
         Some (jq_end q (?a 2 JqueryAndGetElementsInjection)))"
      by (simp del: jq_execute.simps add: end_both numeral_2_eq_2)
    then show ?thesis
      unfolding fuel by (simp del: jq_execute.simps add: jq_execute_again [OF that(1)])
  qed
  have len: "length (fst ?run) \<le> 3"
  proof (cases "\<exists>s. ?a 0 NoInjection = Callback None (Json (JStr s))")
    case False
    with c1 show ?thesis by simp
  next
    case True
    then obtain s where s: "?a 0 NoInjection = Callback None (Json (JStr s))" by blast
    from bare [OF s] show ?thesis
    proof
      assume "s = ''needJquery''"
      with s c2 show ?thesis by simp
    next
      assume f: "s = ''needFunc''"
      show ?thesis
      proof (cases "\<exists>s'. ?a 1 GetElementsInjection = Callback None (Json (JStr s'))")
        case False
        with s f c3 show ?thesis by simp
      next
        case True
        then obtain s' where s': "?a 1 GetElementsInjection = Callback None (Json (JStr s'))"
          by blast
        from func [OF s'] s' s f c4 show ?thesis by simp
      qed
    qed
  qed
  from c1 c2 c3 c4 bare func both len show ?thesis by blast
qed

lemmas stub_defs =
  stub_remote_def wire_def injected_script_def nwdJqGetElements_def normalize_query_def
  cmd_callback_def browser_collab_def response_text_def strip_def jq_params_def
  execute_params_def unwrap_def truthy_opt_def new_error_def no_methods_def step_func_def
  or_default_def WebDriver_def no_options_def

theorem jquery_bootstrap_bounded_witness:
  "jqueryGetElementIds browser_collab (stub_remote no_methods reloading_pages None)
     (normalize_query (WebDriver no_options) ''form'' jquery_params True) 3 =
     ([NoInjection, GetElementsInjection, JqueryAndGetElementsInjection],
      Some (Callback None (ListOf [Json (JStr ''7'')])))"
proof -
  let ?r = "stub_remote no_methods reloading_pages None"
  let ?q = "normalize_query (WebDriver no_options) ''form'' jquery_params True"
  have h: "script_or_failure browser_collab ?r ?q no_methods reloading_pages"
    unfolding script_or_failure_def
    by (auto simp: stub_remote_def wire_def injected_script_def
        nwdJqGetElements_def reloading_pages_def normalize_query_def jquery_params_def
        cmd_callback_def browser_collab_def response_text_def strip_def jq_params_def
        execute_params_def unwrap_def truthy_opt_def new_error_def
      split: script_result.splits if_splits)
  have a0: "execute_outcome browser_collab ?r ?q 0 NoInjection =
      Callback None (Json (JStr ''needFunc''))"
    by (simp add: execute_outcome_def stub_defs reloading_pages_def jquery_params_def)
  have a1: "execute_outcome browser_collab ?r ?q 1 GetElementsInjection =
      Callback None (Json (JStr ''needJquery''))"
    by (simp add: execute_outcome_def stub_defs reloading_pages_def jquery_params_def)
  have a2: "jq_end ?q (execute_outcome browser_collab ?r ?q 2 JqueryAndGetElementsInjection) =
      Callback None (ListOf [Json (JStr ''7'')])"
    by (simp add: execute_outcome_def jq_end_def jq_elements_def opt_js_def stub_defs
        reloading_pages_def jquery_params_def)
  from jquery_bootstrap_bounded [OF h, of 0] a0 a1 a2 show ?thesis by simp
qed

text \<open>
  C4 as stated fails: the client re-executes for as long as the answer is a string. Against
  a server that answers every \<^verbatim>\<open>execute\<close> command with \<^verbatim>\<open>needFunc\<close>, a fourth execution
  is made and the resolution has still not ended, and the second sentinel is followed by the
  selection function alone, not by both pieces.
\<close>

theorem jquery_bootstrap_counterexample:
  "jqueryGetElementIds browser_collab stubborn_remote
     (normalize_query (WebDriver no_options) ''form'' jquery_params True) 4 =
     ([NoInjection, GetElementsInjection, GetElementsInjection, GetElementsInjection], None)"
  by code_simp

section \<open>Properties of selector resolution\<close>

lemma one_execution_strong:
  assumes "script_answer w r q lib pages"
    and "\<forall>n. nwdJqGetElements lib (pages n) (q_chain q) = res"
  shows "one_execution w r q lib pages (final_outcome q res)"
  unfolding one_execution_def
proof (intro allI)
  fix fuel n pre
  let ?next = "\<lambda>s. if s = ''needJquery'' then JqueryAndGetElementsInjection
                    else GetElementsInjection"
  let ?cmd = "cmd_callback w (jq_params r q pre) (execute_answer r n pre)"
  from assms(1) have h:
    "case injected_script lib (pages n) pre (q_chain q) of
       Returned j \<Rightarrow> ?cmd = Callback None (unwrap (Some j))
     | ScriptThrew \<Rightarrow>
         (\<exists>err. ?cmd = Callback (Some err) Undefined \<and> cls err \<noteq> NoSuchElementError)"
    unfolding script_answer_def by (elim allE)
  show "(\<exists>oc. jq_execute w r q (Suc fuel) n pre = ([pre], Some oc) \<and> final_outcome q res oc) \<or>
        (\<exists>s. injected_script lib (pages n) pre (q_chain q) = Returned (JStr s) \<and>
             jq_execute w r q (Suc fuel) n pre =
               (pre # fst (jq_execute w r q fuel (Suc n) (?next s)),
                snd (jq_execute w r q fuel (Suc n) (?next s))))"
  proof (cases "injected_script lib (pages n) pre (q_chain q)")
    case (Returned j)
    with h have c: "?cmd = Callback None (unwrap (Some j))" by simp
    show ?thesis
    proof (cases "\<exists>s. j = JStr s")
      case True
      then obtain s where "j = JStr s" by blast
      with Returned c show ?thesis by (simp add: unwrap_value split: prod.splits)
    next
      case False
      with Returned have "nwdJqGetElements lib (pages n) (q_chain q) = Returned j"
        by (auto simp: injected_script_def split: if_splits)
      with assms(2) have res: "res = Returned j" by simp
      from c False have "jq_execute w r q (Suc fuel) n pre =
          ([pre], Some (jq_elements q (unwrap (Some j))))"
        by (cases j) (auto simp: unwrap_def)
      with res show ?thesis by (simp add: final_outcome_def)
    qed
  next
    case ScriptThrew
    with h obtain err where c: "?cmd = Callback (Some err) Undefined"
      and e: "cls err \<noteq> NoSuchElementError"
      by auto
    from ScriptThrew have "nwdJqGetElements lib (pages n) (q_chain q) = ScriptThrew"
      by (auto simp: injected_script_def split: if_splits)
    with assms(2) have "res = ScriptThrew" by simp
    with c e show ?thesis by (simp add: final_outcome_def)
  qed
qed

lemma jquery_final:
  assumes "script_answer w r q lib pages"
    and "\<forall>n. nwdJqGetElements lib (pages n) (q_chain q) = res"
    and "3 \<le> fuel"
  shows "\<exists>oc. snd (jqueryGetElementIds w r q fuel) = Some oc \<and> final_outcome q res oc"
proof -
  from jqueryGetElementIds_ends [OF one_execution_strong [OF assms(1,2)]] obtain trace oc
    where e: "\<forall>k. jqueryGetElementIds w r q (3 + k) = (trace, Some oc)"
      and g: "final_outcome q res oc"
    by blast
  from assms(3) obtain k where "fuel = 3 + k" using le_Suc_ex by blast
  with e have "snd (jqueryGetElementIds w r q fuel) = Some oc" by simp
  with g show ?thesis by blast
qed

lemma nothing_selected:
  "selection pg = Some [] \<Longrightarrow> nwdJqGetElements lib pg chain = Returned (JArr [])"
  by (simp add: nwdJqGetElements_def split: option.splits)

lemma apply_chain_append:
  "apply_chain lib (before @ steps) elements =
     (case apply_chain lib before elements of
        None \<Rightarrow> None
      | Some elements' \<Rightarrow> apply_chain lib steps elements')"
  by (induction before arbitrary: elements) (auto split: jq_prop.splits option.splits)

lemma apply_chain_unknown:
  assumes "\<forall>v f. apply_chain lib before elements = Some v \<longrightarrow> lib (step_func step) v \<noteq> Method f"
  shows "apply_chain lib (before @ step # rest) elements = None"
proof (cases "apply_chain lib before elements")
  case None
  then show ?thesis by (simp add: apply_chain_append)
next
  case (Some v)
  with assms have "\<And>f. lib (step_func step) v \<noteq> Method f" by simp
  then have "apply_chain lib (step # rest) v = None"
    by (cases "lib (step_func step) v") auto
  with Some show ?thesis by (simp add: apply_chain_append)
qed

lemma unknown_step_throws:
  assumes "selection pg = Some (x # xs)"
    and "\<forall>v f. apply_chain lib before (Collection (x # xs)) = Some v \<longrightarrow>
           lib (step_func step) v \<noteq> Method f"
  shows "nwdJqGetElements lib pg (Some (before @ step # rest)) = ScriptThrew"
proof -
  have "apply_chain lib (before @ step # rest) (Collection (x # xs)) = None"
    using assms(2) by (rule apply_chain_unknown)
  with assms(1) show ?thesis by (simp add: nwdJqGetElements_def)
qed

text \<open>
  Where every step hands a collection on, the value that reaches the next step is a
  collection.
\<close>

lemma apply_chain_collections:
  assumes "\<forall>s \<in> set before. \<forall>es f v. lib (step_func s) (Collection es) = Method f \<and>
             f (step_args s) = Some v \<longrightarrow> (\<exists>es'. v = Collection es')"
    and "apply_chain lib before (Collection es) = Some v"
  shows "\<exists>es'. v = Collection es'"
  using assms
proof (induction before arbitrary: es)
  case Nil
  then show ?case by auto
next
  case (Cons s before)
  from Cons.prems(2) obtain f v' where f: "lib (step_func s) (Collection es) = Method f"
    and v': "f (step_args s) = Some v'" and rest: "apply_chain lib before v' = Some v"
    by (auto split: jq_prop.splits option.splits)
  from Cons.prems(1) have "\<forall>es f v. lib (step_func s) (Collection es) = Method f \<and>
      f (step_args s) = Some v \<longrightarrow> (\<exists>es'. v = Collection es')"
    by simp
  with f v' obtain es' where "v' = Collection es'" by blast
  with Cons.IH [of es'] Cons.prems(1) rest show ?case by simp
qed

lemma parametrize_cls: "cls (parametrizeError q err) = cls err"
  by (simp add: parametrizeError_def parametrize_def)

lemma parametrize_context:
  "map_of (err_context (parametrizeError q err)) ''element'' = Some (JStr (q_selector q)) \<and>
   map_of (err_context (parametrizeError q err)) ''using'' = Some (JStr (q_using q))"
  by (simp add: parametrizeError_def parametrize_def)

lemma pick_custom_no_error: "pick_custom q v \<noteq> Callback (Some err) x"
  by (auto simp: pick_custom_def split: jsval.splits list.splits)

lemma pick_native_no_error: "pick_native q v \<noteq> Callback (Some err) x"
  by (auto simp: pick_native_def split: jsval.splits json.splits)

lemma getIds_callback_error:
  assumes "getIds_callback q pick oc = Callback (Some err) v"
    and "\<And>u e x. pick u \<noteq> Callback (Some e) x"
  shows "\<exists>e0. err = parametrizeError q e0"
proof (cases oc)
  case (Callback e0 u)
  with assms show ?thesis
    by (cases e0) (auto simp: getIds_callback_def split: if_splits)
next
  case (Throws m)
  with assms(1) show ?thesis by (simp add: getIds_callback_def)
next
  case NeverCalled
  with assms(1) show ?thesis by (simp add: getIds_callback_def)
qed

lemma getIds_error_parametrized:
  assumes "getIds w d r fuel selector params isSingle = Some (Callback (Some err) v)"
  shows "\<exists>e0. err = parametrizeError (normalize_query d selector params isSingle) e0"
proof -
  let ?q = "normalize_query d selector params isSingle"
  from assms have p: "sp_parent params \<noteq> Some NotAnElement"
    by (auto simp: getIds_def split: if_splits)
  show ?thesis
  proof (cases "customStrategy (q_using ?q)")
    case JqueryStrategy
    with assms p obtain oc where "getIds_callback ?q (pick_custom ?q) oc = Callback (Some err) v"
      by (auto simp: getIds_def Let_def)
    then show ?thesis by (rule getIds_callback_error) (rule pick_custom_no_error)
  next
    case InheritedProperty
    with assms p show ?thesis
      by (simp add: getIds_def Let_def inherited_call_def split: if_splits)
  next
    case NativeStrategy
    with assms p have "getIds_callback ?q (pick_native ?q)
        (cmd_callback w (find_params ?q) (find_answer r)) = Callback (Some err) v"
      by (simp add: getIds_def Let_def)
    then show ?thesis by (rule getIds_callback_error) (rule pick_native_no_error)
  qed
qed

lemma get_error:
  assumes "get w d r fuel selector params = Some (Callback (Some err) v)"
  shows "\<exists>u. getIds w d r fuel selector (case params of None \<Rightarrow> no_params | Some p \<Rightarrow> p) True =
          Some (Callback (Some err) u)"
proof -
  let ?g = "getIds w d r fuel selector (case params of None \<Rightarrow> no_params | Some p \<Rightarrow> p) True"
  from assms obtain oc where oc: "?g = Some oc" "get_callback oc = Callback (Some err) v"
    by (auto simp: get_def)
  from oc(2) obtain u where "oc = Callback (Some err) u"
    by (cases oc) (auto simp: get_callback_def split: option.splits)
  with oc(1) show ?thesis by blast
qed

lemma getList_error:
  assumes "getList w d r fuel selector params = Some (Callback (Some err) v)"
  shows "\<exists>u. getIds w d r fuel selector (case params of None \<Rightarrow> no_params | Some p \<Rightarrow> p) False =
          Some (Callback (Some err) u)"
proof -
  let ?g = "getIds w d r fuel selector (case params of None \<Rightarrow> no_params | Some p \<Rightarrow> p) False"
  from assms obtain oc where oc: "?g = Some oc" "getList_callback oc = Callback (Some err) v"
    by (auto simp: getList_def)
  from oc(2) obtain u where "oc = Callback (Some err) u"
    by (cases oc) (auto simp: getList_callback_def split: option.splits jsval.splits)
  with oc(1) show ?thesis by blast
qed

lemma normalize_query_simps:
  "q_selector (normalize_query d selector params isSingle) = selector"
  "q_using (normalize_query d selector params isSingle) =
     or_default (sp_using params) (defaults_using d)"
  "q_isSingle (normalize_query d selector params isSingle) = isSingle"
  "q_noError (normalize_query d selector params isSingle) = sp_noError params"
  "q_chain (normalize_query d selector params isSingle) = sp_chain params"
  by (simp_all add: normalize_query_def)

lemma jq_params_isSingle:
  "jq_params r (normalize_query d selector params a) pre =
   jq_params r (normalize_query d selector params b) pre"
  by (simp add: jq_params_def jq_args_def normalize_query_def)

lemma script_answer_isSingle:
  "script_answer w r (normalize_query d selector params a) lib pages =
   script_answer w r (normalize_query d selector params b) lib pages"
  unfolding script_answer_def normalize_query_simps
  by (simp only: jq_params_isSingle [of r d selector params a _ b])

lemma getIds_native:
  assumes "sp_parent params \<noteq> Some NotAnElement"
    and "customStrategy (or_default (sp_using params) (defaults_using d)) = NativeStrategy"
  shows "getIds w d r fuel selector params isSingle =
     Some (getIds_callback (normalize_query d selector params isSingle)
             (pick_native (normalize_query d selector params isSingle))
             (cmd_callback w (find_params (normalize_query d selector params isSingle))
                (find_answer r)))"
  using assms by (simp add: getIds_def Let_def normalize_query_simps)

lemma getIds_jquery:
  assumes "sp_parent params \<noteq> Some NotAnElement"
    and "customStrategy (or_default (sp_using params) (defaults_using d)) = JqueryStrategy"
  shows "getIds w d r fuel selector params isSingle =
     map_option (getIds_callback (normalize_query d selector params isSingle)
                   (pick_custom (normalize_query d selector params isSingle)))
       (snd (jqueryGetElementIds w r (normalize_query d selector params isSingle) fuel))"
  using assms by (simp add: getIds_def Let_def normalize_query_simps)

lemma getIds_jquery_nothing:
  assumes "sp_parent params \<noteq> Some NotAnElement"
    and "customStrategy (or_default (sp_using params) (defaults_using d)) = JqueryStrategy"
    and "script_answer w r (normalize_query d selector params isSingle) lib pages"
    and "\<forall>n. selection (pages n) = Some []"
    and "3 \<le> fuel"
  shows "getIds w d r fuel selector params isSingle =
     Some (if isSingle then
             (if sp_noError params then Callback None (Json JNull)
              else Callback (Some (parametrizeError (normalize_query d selector params isSingle)
                      (new_error NoSuchElementError []
                         [(''element'', JStr selector),
                          (''using'', JStr (or_default (sp_using params) (defaults_using d)))])))
                     (Json (JBool False)))
           else Callback None (ListOf []))"
proof -
  let ?q = "normalize_query d selector params isSingle"
  from assms(4) have "\<forall>n. nwdJqGetElements lib (pages n) (q_chain ?q) = Returned (JArr [])"
    by (simp add: nothing_selected)
  from jquery_final [OF assms(3) this assms(5)]
  have "snd (jqueryGetElementIds w r ?q fuel) = Some (jq_elements ?q (Json (JArr [])))"
    by (simp add: final_outcome_def unwrap_def)
  then show ?thesis
    unfolding getIds_jquery [OF assms(1,2)]
    by (simp add: jq_elements_def getIds_callback_def pick_custom_def normalize_query_simps
        new_error_def)
qed
text \<open>
  C3. A selector that matches nothing. For the native strategy that is a find-element
  command failing with an error of the class "no such element", and a find-elements command
  returning the empty list; for the script strategy, a browser that runs the script on pages
  where the selection is empty. Then \<^verbatim>\<open>get\<close> yields an error of the class "no such
  element", or \<^verbatim>\<open>(null, null)\<close> when \<^verbatim>\<open>noError\<close> is set, and \<^verbatim>\<open>getList\<close> yields
  \<^verbatim>\<open>(null, [])\<close> whatever \<^verbatim>\<open>noError\<close> is. (A parent, when given, is an element handle.)
\<close>

theorem zero_matches:
  assumes "sp_parent params \<noteq> Some NotAnElement"
  shows
    "(customStrategy (or_default (sp_using params) (defaults_using d)) = NativeStrategy \<and>
      cmd_callback w (find_params (normalize_query d selector params True)) (find_answer r) =
        Callback (Some err) x \<and>
      cls err = NoSuchElementError \<longrightarrow>
        (\<exists>e. cls e = NoSuchElementError \<and>
           get w d r fuel selector (Some params) =
             Some (if sp_noError params then Callback None (Json JNull)
                   else Callback (Some e) (Json (JBool False))))) \<and>
     (customStrategy (or_default (sp_using params) (defaults_using d)) = NativeStrategy \<and>
      cmd_callback w (find_params (normalize_query d selector params False)) (find_answer r) =
        Callback None (Json (JArr [])) \<longrightarrow>
        getList w d r fuel selector (Some params) = Some (Callback None (ListOf []))) \<and>
     (customStrategy (or_default (sp_using params) (defaults_using d)) = JqueryStrategy \<and>
      script_answer w r (normalize_query d selector params True) lib pages \<and>
      (\<forall>n. selection (pages n) = Some []) \<and> 3 \<le> fuel \<longrightarrow>
        (\<exists>e. cls e = NoSuchElementError \<and>
           get w d r fuel selector (Some params) =
             Some (if sp_noError params then Callback None (Json JNull)
                   else Callback (Some e) (Json (JBool False)))) \<and>
        getList w d r fuel selector (Some params) = Some (Callback None (ListOf [])))"
proof -
  let ?u = "or_default (sp_using params) (defaults_using d)"
  let ?q = "\<lambda>b. normalize_query d selector params b"
  have native_single: "\<exists>e. cls e = NoSuchElementError \<and>
           get w d r fuel selector (Some params) =
             Some (if sp_noError params then Callback None (Json JNull)
                   else Callback (Some e) (Json (JBool False)))"
    if "customStrategy ?u = NativeStrategy"
      "cmd_callback w (find_params (?q True)) (find_answer r) = Callback (Some err) x"
      "cls err = NoSuchElementError"
  proof -
    have "get w d r fuel selector (Some params) =
             Some (if sp_noError params then Callback None (Json JNull)
                   else Callback (Some (parametrizeError (?q True) err)) (Json (JBool False)))"
      using that
      by (simp add: get_def getIds_native [OF assms] getIds_callback_def get_callback_def
          normalize_query_simps)
    moreover have "cls (parametrizeError (?q True) err) = NoSuchElementError"
      using that(3) by (simp add: parametrize_cls)
    ultimately show ?thesis by blast
  qed
  have native_list: "getList w d r fuel selector (Some params) = Some (Callback None (ListOf []))"
    if "customStrategy ?u = NativeStrategy"
      "cmd_callback w (find_params (?q False)) (find_answer r) = Callback None (Json (JArr []))"
    using that
    by (simp add: getList_def getIds_native [OF assms] getIds_callback_def getList_callback_def
        pick_native_def normalize_query_simps)
  have script: "(\<exists>e. cls e = NoSuchElementError \<and>
           get w d r fuel selector (Some params) =
             Some (if sp_noError params then Callback None (Json JNull)
                   else Callback (Some e) (Json (JBool False)))) \<and>
        getList w d r fuel selector (Some params) = Some (Callback None (ListOf []))"
    if "customStrategy ?u = JqueryStrategy" "script_answer w r (?q True) lib pages"
      "\<forall>n. selection (pages n) = Some []" "3 \<le> fuel"
  proof -
    from that(2) have other: "script_answer w r (?q False) lib pages"
      by (simp only: script_answer_isSingle [of w r d selector params False lib pages True])
    note single = getIds_jquery_nothing [OF assms that(1,2,3,4)]
    note multi = getIds_jquery_nothing [OF assms that(1) other that(3,4)]
    have "get w d r fuel selector (Some params) =
             Some (if sp_noError params then Callback None (Json JNull)
                   else Callback (Some (parametrizeError (?q True)
                      (new_error NoSuchElementError []
                         [(''element'', JStr selector), (''using'', JStr ?u)])))
                     (Json (JBool False)))"
      by (simp add: get_def single get_callback_def)
    moreover have "cls (parametrizeError (?q True)
                      (new_error NoSuchElementError []
                         [(''element'', JStr selector), (''using'', JStr ?u)])) =
                   NoSuchElementError"
      by (simp add: parametrize_cls new_error_def)
    moreover have "getList w d r fuel selector (Some params) = Some (Callback None (ListOf []))"
      by (simp add: getList_def multi getList_callback_def)
    ultimately show ?thesis by blast
  qed
  from native_single native_list script show ?thesis by blast
qed
lemma stub_nothing_selected:
  "script_answer browser_collab (stub_remote no_methods empty_pages (sp_chain params))
     (normalize_query d selector params isSingle) no_methods empty_pages"
  by (cases "sp_chain params")
     (simp_all add: script_answer_def stub_defs empty_pages_def)

lemma stub_bogus_chain:
  "script_answer browser_collab (stub_remote no_methods found_pages (sp_chain bogus_chain_params))
     (normalize_query d selector bogus_chain_params isSingle) no_methods found_pages"
  by (simp add: script_answer_def stub_defs found_pages_def bogus_chain_params_def)

theorem zero_matches_witness:
  "(\<exists>e. cls e = NoSuchElementError \<and>
      get browser_collab (WebDriver no_options)
        ((stub_remote no_methods empty_pages None)\<lparr>find_answer := Responded [] ''no such element''\<rparr>)
        3 ''[name=missing]'' (Some no_params) =
      Some (Callback (Some e) (Json (JBool False)))) \<and>
   getList browser_collab (WebDriver no_options)
     ((stub_remote no_methods empty_pages None)\<lparr>find_answer := Responded [] ''[]''\<rparr>)
     3 ''.missing'' (Some (no_params\<lparr>sp_noError := True\<rparr>)) =
     Some (Callback None (ListOf [])) \<and>
   get browser_collab (WebDriver no_options) (stub_remote no_methods empty_pages None)
     3 ''[name=missing]'' (Some (jquery_params\<lparr>sp_noError := True\<rparr>)) =
     Some (Callback None (Json JNull)) \<and>
   getList browser_collab (WebDriver no_options) (stub_remote no_methods empty_pages None)
     3 ''.missing'' (Some jquery_params) = Some (Callback None (ListOf []))"
proof -
  let ?d = "WebDriver no_options"
  let ?r = "stub_remote no_methods empty_pages None"
  have native: "customStrategy (or_default (sp_using p) (defaults_using ?d)) = NativeStrategy"
    if "sp_using p = None" for p
    using that
    by (simp add: customStrategy_def or_default_def WebDriver_def no_options_def
        object_prototype_keys_def)
  have jq: "customStrategy (or_default (sp_using p) (defaults_using ?d)) = JqueryStrategy"
    if "sp_using p = Some ''jquery''" for p
    using that by (simp add: customStrategy_def or_default_def)
  have a: "\<exists>e. cls e = NoSuchElementError \<and>
      get browser_collab ?d (?r\<lparr>find_answer := Responded [] ''no such element''\<rparr>)
        3 ''[name=missing]'' (Some no_params) =
      Some (Callback (Some e) (Json (JBool False)))"
    using zero_matches [where params = no_params and d = "?d" and w = browser_collab
        and r = "?r\<lparr>find_answer := Responded [] ''no such element''\<rparr>"
        and selector = "''[name=missing]''" and fuel = 3
        and err = "new_error NoSuchElementError [] []" and x = Undefined]
      native [of no_params]
    by (simp add: no_params_def cmd_callback_def browser_collab_def response_text_def strip_def
        truthy_opt_def new_error_def)
  have b: "getList browser_collab ?d (?r\<lparr>find_answer := Responded [] ''[]''\<rparr>)
     3 ''.missing'' (Some (no_params\<lparr>sp_noError := True\<rparr>)) = Some (Callback None (ListOf []))"
    using zero_matches [where params = "no_params\<lparr>sp_noError := True\<rparr>" and d = "?d"
        and w = browser_collab and r = "?r\<lparr>find_answer := Responded [] ''[]''\<rparr>"
        and selector = "''.missing''" and fuel = 3]
      native [of "no_params\<lparr>sp_noError := True\<rparr>"]
    by (simp add: no_params_def cmd_callback_def browser_collab_def response_text_def strip_def
        truthy_opt_def unwrap_def find_params_def Let_def)
  have c: "get browser_collab ?d ?r 3 ''[name=missing]''
       (Some (jquery_params\<lparr>sp_noError := True\<rparr>)) = Some (Callback None (Json JNull)) "
    using zero_matches [where params = "jquery_params\<lparr>sp_noError := True\<rparr>" and d = "?d"
        and w = browser_collab and r = "?r" and selector = "''[name=missing]''" and fuel = 3
        and lib = no_methods and pages = empty_pages]
      jq [of "jquery_params\<lparr>sp_noError := True\<rparr>"]
      stub_nothing_selected [of "jquery_params\<lparr>sp_noError := True\<rparr>" ?d "''[name=missing]''" True]
    by (simp add: jquery_params_def empty_pages_def)
  have e: "getList browser_collab ?d ?r 3 ''.missing'' (Some jquery_params) =
       Some (Callback None (ListOf []))"
    using zero_matches [where params = jquery_params and d = "?d"
        and w = browser_collab and r = "?r" and selector = "''.missing''" and fuel = 3
        and lib = no_methods and pages = empty_pages]
      jq [of jquery_params]
      stub_nothing_selected [of jquery_params ?d "''.missing''" True]
    by (simp add: jquery_params_def empty_pages_def)
  from a b c e show ?thesis by blast
qed

section \<open>The context attached to errors, and unknown chain operations\<close>

text \<open>
  C9. Every error that \<^verbatim>\<open>_getIds\<close>, \<^verbatim>\<open>get\<close> or \<^verbatim>\<open>getList\<close> hands to the callback
  carries the selector as \<^verbatim>\<open>element\<close> and the strategy name as \<^verbatim>\<open>using\<close>: it went
  through \<^verbatim>\<open>parametrizeError\<close>. And when the command of the native strategy, or the
  script strategy, reports an error, the operation ends by calling the callback, with
  \<^verbatim>\<open>(null, null)\<close> for a suppressed "no such element" and with the error, context
  attached, otherwise.
\<close>

theorem errors_carry_context:
  "(\<forall>err v. getIds w d r fuel selector params isSingle = Some (Callback (Some err) v) \<longrightarrow>
      map_of (err_context err) ''element'' = Some (JStr selector) \<and>
      map_of (err_context err) ''using'' =
        Some (JStr (or_default (sp_using params) (defaults_using d)))) \<and>
   (\<forall>err v. get w d r fuel selector (Some params) = Some (Callback (Some err) v) \<longrightarrow>
      map_of (err_context err) ''element'' = Some (JStr selector) \<and>
      map_of (err_context err) ''using'' =
        Some (JStr (or_default (sp_using params) (defaults_using d)))) \<and>
   (\<forall>err v. getList w d r fuel selector (Some params) = Some (Callback (Some err) v) \<longrightarrow>
      map_of (err_context err) ''element'' = Some (JStr selector) \<and>
      map_of (err_context err) ''using'' =
        Some (JStr (or_default (sp_using params) (defaults_using d)))) \<and>
   (\<forall>e0 x. sp_parent params \<noteq> Some NotAnElement \<and>
      ((customStrategy (or_default (sp_using params) (defaults_using d)) = NativeStrategy \<and>
        cmd_callback w (find_params (normalize_query d selector params isSingle)) (find_answer r) =
          Callback (Some e0) x) \<or>
       (customStrategy (or_default (sp_using params) (defaults_using d)) = JqueryStrategy \<and>
        snd (jqueryGetElementIds w r (normalize_query d selector params isSingle) fuel) =
          Some (Callback (Some e0) x))) \<longrightarrow>
      getIds w d r fuel selector params isSingle =
        Some (if sp_noError params \<and> cls e0 = NoSuchElementError
              then Callback None (Json JNull)
              else Callback
                     (Some (parametrize
                        [(''element'', JStr selector),
                         (''using'', JStr (or_default (sp_using params) (defaults_using d)))] e0))
                     (Json (JBool False))))"
proof -
  let ?u = "or_default (sp_using params) (defaults_using d)"
  have ids: "map_of (err_context err) ''element'' = Some (JStr selector) \<and>
      map_of (err_context err) ''using'' = Some (JStr ?u)"
    if "getIds w d r fuel selector params b = Some (Callback (Some err) v)" for err v b
  proof -
    from getIds_error_parametrized [OF that] obtain e0
      where "err = parametrizeError (normalize_query d selector params b) e0" by blast
    then show ?thesis
      using parametrize_context [of "normalize_query d selector params b" e0]
      by (simp add: normalize_query_simps)
  qed
  have one: "map_of (err_context err) ''element'' = Some (JStr selector) \<and>
      map_of (err_context err) ''using'' = Some (JStr ?u)"
    if "get w d r fuel selector (Some params) = Some (Callback (Some err) v)" for err v
    using get_error [OF that] ids by auto
  have many: "map_of (err_context err) ''element'' = Some (JStr selector) \<and>
      map_of (err_context err) ''using'' = Some (JStr ?u)"
    if "getList w d r fuel selector (Some params) = Some (Callback (Some err) v)" for err v
    using getList_error [OF that] ids by auto
  have passed: "getIds w d r fuel selector params isSingle =
        Some (if sp_noError params \<and> cls e0 = NoSuchElementError
              then Callback None (Json JNull)
              else Callback
                     (Some (parametrize [(''element'', JStr selector), (''using'', JStr ?u)] e0))
                     (Json (JBool False)))"
    if "sp_parent params \<noteq> Some NotAnElement"
      "(customStrategy ?u = NativeStrategy \<and>
        cmd_callback w (find_params (normalize_query d selector params isSingle)) (find_answer r) =
          Callback (Some e0) x) \<or>
       (customStrategy ?u = JqueryStrategy \<and>
        snd (jqueryGetElementIds w r (normalize_query d selector params isSingle) fuel) =
          Some (Callback (Some e0) x))" for e0 x
    using that(2)
  proof
    assume "customStrategy ?u = NativeStrategy \<and>
        cmd_callback w (find_params (normalize_query d selector params isSingle)) (find_answer r) =
          Callback (Some e0) x"
    then show ?thesis
      by (simp add: getIds_native [OF that(1)] getIds_callback_def parametrizeError_def
          normalize_query_simps)
  next
    assume "customStrategy ?u = JqueryStrategy \<and>
        snd (jqueryGetElementIds w r (normalize_query d selector params isSingle) fuel) =
          Some (Callback (Some e0) x)"
    then show ?thesis
      by (simp add: getIds_jquery [OF that(1)] getIds_callback_def parametrizeError_def
          normalize_query_simps)
  qed
  from ids [where b = isSingle] one many passed show ?thesis by blast
qed

theorem errors_carry_context_witness:
  "get stub_collab (WebDriver no_options)
     ((stub_remote no_methods empty_pages None)
        \<lparr>find_answer := Failed (new_error NativeError ''connect ECONNREFUSED'' [])\<rparr>)
     3 ''#login'' (Some no_params) =
   Some (Callback
     (Some \<lparr>cls = NativeError, message = ''connect ECONNREFUSED'',
            err_context = [(''element'', JStr ''#login''), (''using'', JStr ''css selector'')]\<rparr>)
     (Json (JBool False)))"
proof -
  let ?r = "(stub_remote no_methods empty_pages None)
        \<lparr>find_answer := Failed (new_error NativeError ''connect ECONNREFUSED'' [])\<rparr>"
  have native: "customStrategy (or_default (sp_using no_params) (defaults_using (WebDriver no_options))) =
      NativeStrategy"
    by (simp add: customStrategy_def or_default_def WebDriver_def no_options_def no_params_def
        object_prototype_keys_def)
  have failed: "cmd_callback stub_collab
       (find_params (normalize_query (WebDriver no_options) ''#login'' no_params True))
       (find_answer ?r) = Callback (Some (new_error NativeError ''connect ECONNREFUSED'' [])) Undefined"
    by (simp add: cmd_callback_def)
  have parent: "sp_parent no_params \<noteq> Some NotAnElement" by (simp add: no_params_def)
  from errors_carry_context [of stub_collab "WebDriver no_options" ?r 3 "''#login''" no_params True]
    native failed parent
  have "getIds stub_collab (WebDriver no_options) ?r 3 ''#login'' no_params True =
      Some (Callback
         (Some (parametrize [(''element'', JStr ''#login''),
            (''using'', JStr (or_default (sp_using no_params) (defaults_using (WebDriver no_options))))]
            (new_error NativeError ''connect ECONNREFUSED'' [])))
         (Json (JBool False)))"
    by (simp add: new_error_def)
  then show ?thesis
    by (simp add: get_def get_callback_def parametrize_def new_error_def or_default_def
        no_params_def WebDriver_def no_options_def)
qed
text \<open>
  C5 (as amended). A query of the script strategy against pages where the selector matches
  at least one element, whose chain has a step with an operation name that is no function
  of the value the chain has made of the selection when it reaches that step (the selected
  collection itself for the first step): the script throws at that step or before it, and
  \<^verbatim>\<open>_getIds\<close>, \<^verbatim>\<open>get\<close> and \<^verbatim>\<open>getList\<close> hand an error to the callback, whatever
  \<^verbatim>\<open>noError\<close> is. (The browser reports a script that throws as an error that is not of
  the class "no such element".)
\<close>

theorem unknown_chain_operation:
  assumes "sp_parent params \<noteq> Some NotAnElement"
    and "customStrategy (or_default (sp_using params) (defaults_using d)) = JqueryStrategy"
    and "sp_chain params = Some (before @ step # rest)"
    and "\<forall>n x xs v f. selection (pages n) = Some (x # xs) \<and>
           apply_chain lib before (Collection (x # xs)) = Some v \<longrightarrow>
           lib (step_func step) v \<noteq> Method f"
    and "\<forall>n. \<exists>x xs. selection (pages n) = Some (x # xs)"
    and "script_answer w r (normalize_query d selector params True) lib pages"
    and "3 \<le> fuel"
  shows
    "(\<exists>err. getIds w d r fuel selector params isSingle =
              Some (Callback (Some err) (Json (JBool False))) \<and>
            cls err \<noteq> NoSuchElementError) \<and>
     (\<exists>err. get w d r fuel selector (Some params) = Some (Callback (Some err) (Json (JBool False)))) \<and>
     (\<exists>err. getList w d r fuel selector (Some params) =
              Some (Callback (Some err) (Json (JBool False))))"
proof -
  have ids: "\<exists>err. getIds w d r fuel selector params b =
              Some (Callback (Some err) (Json (JBool False))) \<and>
            cls err \<noteq> NoSuchElementError" for b
  proof -
    let ?q = "normalize_query d selector params b"
    from assms(6) have answer: "script_answer w r ?q lib pages"
      by (simp only: script_answer_isSingle [of w r d selector params b lib pages True])
    have "\<forall>n. nwdJqGetElements lib (pages n) (q_chain ?q) = ScriptThrew"
    proof
      fix n
      from assms(5) obtain x xs where sel: "selection (pages n) = Some (x # xs)" by blast
      with assms(4) have "\<forall>v f. apply_chain lib before (Collection (x # xs)) = Some v \<longrightarrow>
          lib (step_func step) v \<noteq> Method f"
        by blast
      with sel have "nwdJqGetElements lib (pages n) (Some (before @ step # rest)) = ScriptThrew"
        by (rule unknown_step_throws)
      then show "nwdJqGetElements lib (pages n) (q_chain ?q) = ScriptThrew"
        by (simp add: normalize_query_simps assms(3))
    qed
    from jquery_final [OF answer this assms(7)] obtain err
      where "snd (jqueryGetElementIds w r ?q fuel) = Some (Callback (Some err) Undefined)"
        and "cls err \<noteq> NoSuchElementError"
      by (auto simp: final_outcome_def)
    then have "getIds w d r fuel selector params b =
        Some (Callback (Some (parametrizeError ?q err)) (Json (JBool False)))"
      by (simp add: getIds_jquery [OF assms(1,2)] getIds_callback_def)
    moreover from \<open>cls err \<noteq> NoSuchElementError\<close>
    have "cls (parametrizeError ?q err) \<noteq> NoSuchElementError"
      by (simp add: parametrize_cls)
    ultimately show ?thesis by blast
  qed
  from ids [of True] have one:
    "\<exists>err. get w d r fuel selector (Some params) = Some (Callback (Some err) (Json (JBool False)))"
    by (auto simp: get_def get_callback_def)
  from ids [of False] have many:
    "\<exists>err. getList w d r fuel selector (Some params) =
       Some (Callback (Some err) (Json (JBool False)))"
    by (auto simp: getList_def getList_callback_def)
  from ids [of isSingle] one many show ?thesis by blast
qed

theorem unknown_chain_operation_witness:
  "\<exists>err. getList browser_collab (WebDriver no_options)
       (stub_remote no_methods found_pages (sp_chain bogus_chain_params))
       3 ''form'' (Some bogus_chain_params) =
     Some (Callback (Some err) (Json (JBool False)))"
proof -
  have parent: "sp_parent bogus_chain_params \<noteq> Some NotAnElement"
    by (simp add: bogus_chain_params_def)
  have jq: "customStrategy (or_default (sp_using bogus_chain_params)
      (defaults_using (WebDriver no_options))) = JqueryStrategy"
    by (simp add: customStrategy_def or_default_def bogus_chain_params_def)
  have chain: "sp_chain bogus_chain_params = Some ([] @ [(''bogus'', JStr ''x'')] # [])"
    by (simp add: bogus_chain_params_def)
  have unknown: "\<forall>n x xs v f. selection (found_pages n) = Some (x # xs) \<and>
      apply_chain no_methods [] (Collection (x # xs)) = Some v \<longrightarrow>
      no_methods (step_func [(''bogus'', JStr ''x'')]) v \<noteq> Method f"
    by (simp add: no_methods_def)
  have found: "\<forall>n. \<exists>x xs. selection (found_pages n) = Some (x # xs)"
    by (simp add: found_pages_def)
  have three: "(3::nat) \<le> 3" by simp
  have "(\<exists>err. getIds browser_collab (WebDriver no_options)
            (stub_remote no_methods found_pages (sp_chain bogus_chain_params))
            3 ''form'' bogus_chain_params False =
              Some (Callback (Some err) (Json (JBool False))) \<and>
            cls err \<noteq> NoSuchElementError) \<and>
     (\<exists>err. get browser_collab (WebDriver no_options)
            (stub_remote no_methods found_pages (sp_chain bogus_chain_params))
            3 ''form'' (Some bogus_chain_params) =
              Some (Callback (Some err) (Json (JBool False)))) \<and>
     (\<exists>err. getList browser_collab (WebDriver no_options)
            (stub_remote no_methods found_pages (sp_chain bogus_chain_params))
            3 ''form'' (Some bogus_chain_params) =
              Some (Callback (Some err) (Json (JBool False))))"
    using parent jq chain unknown found stub_bogus_chain three
    by (rule unknown_chain_operation)
  then show ?thesis by blast
qed

text \<open>
  The condition is on the value that reaches the step, not on the collections of the
  library alone: a step before it may have put another value in the place of the
  collection. Here \<^verbatim>\<open>attr\<close> has made a string of the selection, \<^verbatim>\<open>charAt\<close> is a function
  of that string though not of a collection, the script returns the empty list and
  \<^verbatim>\<open>getList\<close> ends without error.
\<close>

lemma operation_of_an_earlier_result:
  "attr_lib ''charAt'' (Collection es) = Falsy \<and>
   getList browser_collab (WebDriver no_options)
     (stub_remote attr_lib found_pages (sp_chain attr_chain_params))
     3 ''form'' (Some attr_chain_params) =
   Some (Callback None (ListOf []))"
proof -
  have "getList browser_collab (WebDriver no_options)
     (stub_remote attr_lib found_pages (sp_chain attr_chain_params))
     3 ''form'' (Some attr_chain_params) =
   Some (Callback None (ListOf []))"
    by code_simp
  then show ?thesis by (simp add: attr_lib_def)
qed

text \<open>
  C5 as stated fails where the selector matches nothing: the script applies the chain only
  to a selection that is not empty, so the unknown operation is never looked at, and
  \<^verbatim>\<open>getList\<close> ends without error, with the empty list.
\<close>

theorem unknown_chain_operation_counterexample:
  "script_answer browser_collab (stub_remote no_methods empty_pages (sp_chain bogus_chain_params))
     (normalize_query (WebDriver no_options) ''.missing'' bogus_chain_params False)
     no_methods empty_pages \<and>
   no_methods (step_func [(''bogus'', JStr ''x'')]) (Collection []) = Falsy \<and>
   getList browser_collab (WebDriver no_options)
     (stub_remote no_methods empty_pages (sp_chain bogus_chain_params))
     3 ''.missing'' (Some bogus_chain_params) =
   Some (Callback None (ListOf []))"
proof -
  have "getList browser_collab (WebDriver no_options)
     (stub_remote no_methods empty_pages (sp_chain bogus_chain_params))
     3 ''.missing'' (Some bogus_chain_params) =
   Some (Callback None (ListOf []))"
    by code_simp
  then show ?thesis
    by (simp add: stub_nothing_selected no_methods_def)
qed

section \<open>The mirrored element methods against \<^verbatim>\<open>get\<close> followed by the method\<close>

text \<open>
  C6. For a method of the element whose name has no leading underscore, a selector, and
  arguments that end in the callback: \<^verbatim>\<open>driver.element.m\<close> yields what \<^verbatim>\<open>get\<close> followed
  by the element's \<^verbatim>\<open>m\<close> yields, and hands on the error of a failed \<^verbatim>\<open>get\<close>. The
  argument after the selector is the object of selector parameters exactly when it is such
  an object. So every call is covered: one whose argument after the selector is an object of
  selector parameters is \<^verbatim>\<open>get\<close> with these parameters and the method with the arguments
  after them, any other call is \<^verbatim>\<open>get\<close> without parameters and the method with all the
  arguments. Said from the parameters and the trailing arguments: given parameters come
  first, and when they are left out the first trailing argument is no such object (it would
  be the parameters).
\<close>

theorem element_delegate_refines:
  assumes "m \<in> set names"
    and "take 1 m \<noteq> ''_''"
  shows
    "element_delegate names methods (get w d r fuel selector) m (args @ [CallbackFn]) =
       (case args of
          Params p # rest \<Rightarrow> get_then_method methods (get w d r fuel selector) m (Some p) rest
        | _ \<Rightarrow> get_then_method methods (get w d r fuel selector) m None args) \<and>
     ((params = None \<longrightarrow> (\<forall>p rest. trailing \<noteq> Params p # rest)) \<longrightarrow>
      element_delegate names methods (get w d r fuel selector) m
        ((case params of None \<Rightarrow> [] | Some p \<Rightarrow> [Params p]) @ trailing @ [CallbackFn]) =
      get_then_method methods (get w d r fuel selector) m params trailing)"
proof -
  have given: "element_delegate names methods (get w d r fuel selector) m
        (Params p # rest @ [CallbackFn]) =
      get_then_method methods (get w d r fuel selector) m (Some p) rest" for p rest
    using assms
    by (cases "get w d r fuel selector (Some p)")
       (auto simp: element_delegate_def get_then_method_def split: outcome.splits option.splits)
  have left_out: "element_delegate names methods (get w d r fuel selector) m
        (rest @ [CallbackFn]) =
      get_then_method methods (get w d r fuel selector) m None rest"
    if shape: "\<forall>p rest'. rest \<noteq> Params p # rest'" for rest
  proof -
    from shape have "\<forall>p rest'. rest @ [CallbackFn] \<noteq> Params p # rest'"
      by (cases rest) auto
    then have split: "(case rest @ [CallbackFn] of
                    Params p # rest' \<Rightarrow> (Some p, rest')
                  | _ \<Rightarrow> (None, rest @ [CallbackFn])) = (None, rest @ [CallbackFn])"
      by (auto split: list.splits arg.splits)
    from assms show ?thesis
      by (cases "get w d r fuel selector None")
         (auto simp: element_delegate_def get_then_method_def split
            split: outcome.splits option.splits)
  qed
  have calls: "element_delegate names methods (get w d r fuel selector) m (args @ [CallbackFn]) =
       (case args of
          Params p # rest \<Rightarrow> get_then_method methods (get w d r fuel selector) m (Some p) rest
        | _ \<Rightarrow> get_then_method methods (get w d r fuel selector) m None args)"
  proof (cases "\<exists>p rest. args = Params p # rest")
    case True
    then obtain p rest where "args = Params p # rest" by blast
    with given [of p rest] show ?thesis by simp
  next
    case False
    then have shape: "\<forall>p rest. args \<noteq> Params p # rest" by blast
    then have "(case args of
          Params p # rest \<Rightarrow> get_then_method methods (get w d r fuel selector) m (Some p) rest
        | _ \<Rightarrow> get_then_method methods (get w d r fuel selector) m None args) =
        get_then_method methods (get w d r fuel selector) m None args"
      by (auto split: list.splits arg.splits)
    with left_out [OF shape] show ?thesis by simp
  qed
  have readings: "element_delegate names methods (get w d r fuel selector) m
        ((case params of None \<Rightarrow> [] | Some p \<Rightarrow> [Params p]) @ trailing @ [CallbackFn]) =
      get_then_method methods (get w d r fuel selector) m params trailing"
    if "params = None \<longrightarrow> (\<forall>p rest. trailing \<noteq> Params p # rest)"
  proof (cases params)
    case (Some p)
    with given [of p trailing] show ?thesis by simp
  next
    case None
    with that left_out [of trailing] show ?thesis by simp
  qed
  from calls readings show ?thesis by blast
qed

theorem element_delegate_refines_witness:
  "element_delegate [''getAttr'', ''_getCmd''] counting_methods
     (get browser_collab (WebDriver no_options) (stub_remote no_methods found_pages None) 3 ''form'')
     ''getAttr'' [Params jquery_params, Plain (JStr ''id''), CallbackFn] =
   get_then_method counting_methods
     (get browser_collab (WebDriver no_options) (stub_remote no_methods found_pages None) 3 ''form'')
     ''getAttr'' (Some jquery_params) [Plain (JStr ''id'')] \<and>
   element_delegate [''getAttr'', ''_getCmd''] counting_methods
     (get browser_collab (WebDriver no_options) (stub_remote no_methods found_pages None) 3 ''form'')
     ''getAttr'' [Plain (JStr ''id''), CallbackFn] =
   get_then_method counting_methods
     (get browser_collab (WebDriver no_options) (stub_remote no_methods found_pages None) 3 ''form'')
     ''getAttr'' None [Plain (JStr ''id'')] \<and>
   get_then_method counting_methods
     (get browser_collab (WebDriver no_options) (stub_remote no_methods found_pages None) 3 ''form'')
     ''getAttr'' (Some jquery_params) [Plain (JStr ''id'')] =
   Some (Callback None (Json (JNum 2)))"
proof -
  have run: "get_then_method counting_methods
     (get browser_collab (WebDriver no_options) (stub_remote no_methods found_pages None) 3 ''form'')
     ''getAttr'' (Some jquery_params) [Plain (JStr ''id'')] =
   Some (Callback None (Json (JNum 2)))"
    by code_simp
  from run
    element_delegate_refines [where m = "''getAttr''" and names = "[''getAttr'', ''_getCmd'']"
      and params = "Some jquery_params" and trailing = "[Plain (JStr ''id'')]"
      and args = "[Params jquery_params, Plain (JStr ''id'')]"
      and methods = counting_methods and w = browser_collab and d = "WebDriver no_options"
      and r = "stub_remote no_methods found_pages None" and fuel = 3 and selector = "''form''"]
    element_delegate_refines [where m = "''getAttr''" and names = "[''getAttr'', ''_getCmd'']"
      and params = None and trailing = "[Plain (JStr ''id'')]"
      and args = "[Plain (JStr ''id'')]"
      and methods = counting_methods and w = browser_collab and d = "WebDriver no_options"
      and r = "stub_remote no_methods found_pages None" and fuel = 3 and selector = "''form''"]
  show ?thesis by simp
qed

end
